(* ===== verification/Prelude.thy ===== *)
theory Prelude
  imports Main "HOL-Library.Word"
begin

text \<open>
  Shared vocabulary of the development. A JavaScript string is a sequence of UTF-16
  code units, so it is modelled as a list of 16-bit words (\<open>jsstr\<close>); a byte produced
  by \<open>atob\<close> is a code unit below 256. This theory names those types, declares the
  collections \<open>js_eval\<close> (definitions unfolded when a witness evaluates the model on a
  concrete input) and \<open>latin1_simps\<close> (facts about code units below 256), and proves the
  generic lemmas on words, lists and numerals that the component theories share.
\<close>

unbundle bit_operations_syntax

type_synonym code_unit = "16 word"
type_synonym jsstr = "code_unit list"

named_theorems js_eval "definitions unfolded to evaluate the model on concrete inputs"
named_theorems latin1_simps "facts about code units below 256"

text \<open>A code unit is Latin-1 when it fits in one byte: what \<open>btoa\<close> accepts.\<close>

definition latin1 :: "jsstr \<Rightarrow> bool" where
  "latin1 s \<longleftrightarrow> list_all (\<lambda>c. unat c < 256) s"

text \<open>An ASCII HOL string literal as the JavaScript string with the same characters.\<close>

definition js_lit :: "string \<Rightarrow> jsstr" where
  "js_lit s = map (\<lambda>c. of_nat (of_char c)) s"

declare latin1_def [js_eval] js_lit_def [js_eval]

subsection \<open>Words\<close>

lemma unat_less_iff_uint: "unat (a::'a::len word) < m \<longleftrightarrow> uint a < int m"
  by (metis of_nat_unat of_nat_less_iff)

lemma unat_xor_byte [latin1_simps]:
  assumes "unat (a::code_unit) < 256" and "unat b < 256"
  shows "unat (a XOR b) < 256"
proof -
  have "uint a < 2 ^ 8" "uint b < 2 ^ 8"
    using assms by (simp_all add: unat_less_iff_uint)
  then have "uint a XOR uint b < 2 ^ 8"
    by (intro XOR_upper) simp_all
  then show ?thesis
    by (simp add: unat_less_iff_uint uint_xor)
qed

lemma xor_xor_cancel [simp]: "((a::'a::len word) XOR b) XOR b = a"
  by (simp add: xor.assoc)

lemma unat_xor_not_byte:
  assumes "256 \<le> unat (a::code_unit)" and "unat b < 256"
  shows "256 \<le> unat (a XOR b)"
proof (rule ccontr)
  assume "\<not> 256 \<le> unat (a XOR b)"
  with unat_xor_byte [of "a XOR b" b] assms(2) have "unat a < 256"
    by simp
  with assms(1) show False by simp
qed

lemma of_nat_unat_code_unit [simp]: "(of_nat (unat (c::code_unit)) :: code_unit) = c"
  by simp

lemma unat_of_nat_byte [latin1_simps]: "n < 256 \<Longrightarrow> unat (of_nat n :: code_unit) = n"
  by (simp add: unat_of_nat)

lemma replicate_numeral [js_eval]: "replicate (numeral k) x = x # replicate (pred_numeral k) x"
  by (simp add: numeral_eq_Suc)

subsection \<open>Maps updated field by field\<close>

text \<open>
  A \<open>forEach\<close> over distinct field names that rewrites each field from its own old value
  rewrites every listed field once and leaves the others alone.
\<close>

lemma foldl_field_update:
  "distinct fs \<Longrightarrow>
   foldl (\<lambda>d f. d(f := h (d f))) m fs x = (if x \<in> set fs then h (m x) else m x)"
proof (induction fs arbitrary: m)
  case Nil
  then show ?case by simp
next
  case (Cons f fs)
  then show ?case by auto
qed

subsection \<open>Latin-1 strings\<close>

lemma latin1_Nil [simp]: "latin1 []"
  by (simp add: latin1_def)

lemma latin1_Cons [simp]: "latin1 (c # s) \<longleftrightarrow> unat c < 256 \<and> latin1 s"
  by (simp add: latin1_def)

lemma latin1_append [simp]: "latin1 (s @ t) \<longleftrightarrow> latin1 s \<and> latin1 t"
  by (simp add: latin1_def)

lemma latin1_iff: "latin1 s \<longleftrightarrow> (\<forall>c \<in> set s. unat c < 256)"
  by (simp add: latin1_def list_all_iff)

lemma latin1_nth: "latin1 s \<Longrightarrow> i < length s \<Longrightarrow> unat (s ! i) < 256"
  by (simp add: latin1_iff)

lemma latin1_js_lit: "\<forall>c \<in> set s. of_char c < (256::nat) \<Longrightarrow> latin1 (js_lit s)"
  by (induction s) (simp_all add: js_lit_def unat_of_nat_byte)

lemma length_js_lit [simp]: "length (js_lit s) = length s"
  by (simp add: js_lit_def)

lemma js_lit_eq_Nil [simp]: "js_lit s = [] \<longleftrightarrow> s = []"
  by (simp add: js_lit_def)

lemma js_lit_append [simp]: "js_lit (s @ t) = js_lit s @ js_lit t"
  by (simp add: js_lit_def)

text \<open>A key repeated \<open>n\<close> times, read at index \<open>j\<close>, is the key read at \<open>j mod length k\<close>.\<close>

lemma length_concat_replicate: "length (concat (replicate n k)) = n * length k"
  by (induction n) simp_all

lemma nth_concat_replicate:
  "j < n * length k \<Longrightarrow> concat (replicate n k) ! j = k ! (j mod length k)"
proof (induction n arbitrary: j)
  case 0
  then show ?case by simp
next
  case (Suc n)
  show ?case
  proof (cases "j < length k")
    case True
    then show ?thesis by (simp add: nth_append)
  next
    case False
    then have "j - length k < n * length k" using Suc.prems by simp
    with False Suc.IH show ?thesis by (simp add: nth_append le_mod_geq)
  qed
qed

end
