(* ===== verification/JsValue.thy ===== *)
theory JsValue
  imports Prelude
begin

text \<open>
  The JavaScript values the source handles and the language operations it relies on:
  truthiness (the guards \<open>if (!text)\<close> and \<open>if (encryptedData[field])\<close>), the
  conversion \<open>toString\<close> applied to record fields, \<open>Number.prototype.toString(radix)\<close>
  for non-negative integers (used with radix 10 on \<open>Date.now()\<close> and radix 36 on the
  hash), \<open>String.prototype.slice\<close> with one argument, and \<open>ToInt32\<close> with the
  operators \<open><<\<close> and \<open>&\<close> on 32-bit integers. These are ECMAScript semantics, not
  code of the repository; they are modelled from the language specification.
\<close>

subsection \<open>Values and errors\<close>

text \<open>
  Numbers are modelled by their integer value: every number the source meets is an integer
  (timestamps, the hash, numeric form fields such as amounts), far below \<open>2^53\<close>, where
  the double arithmetic of JavaScript is exact.
\<close>

datatype jsval = JUndefined | JNull | JBool bool | JNum int | JStr jsstr

text \<open>The one exception the source's calls can raise (\<open>btoa\<close> and \<open>atob\<close>).\<close>

datatype dom_exception = InvalidCharacterError

fun truthy :: "jsval \<Rightarrow> bool" where
  "truthy JUndefined = False"
| "truthy JNull = False"
| "truthy (JBool b) = b"
| "truthy (JNum n) = (n \<noteq> 0)"
| "truthy (JStr s) = (s \<noteq> [])"

subsection \<open>Number to string in a radix\<close>

text \<open>Digits of \<open>n\<close> in radix \<open>r\<close>, most significant first; \<open>0\<close> has the one digit \<open>0\<close>.\<close>

fun radix_digits :: "nat \<Rightarrow> nat \<Rightarrow> nat list" where
  "radix_digits r n = (if r < 2 \<or> n < r then [n] else radix_digits r (n div r) @ [n mod r])"

declare radix_digits.simps [simp del]

text \<open>Digit characters \<open>0\<close>--\<open>9\<close>, then \<open>a\<close>--\<open>z\<close>, as \<open>toString(radix)\<close> prints them.\<close>

definition digit_char :: "nat \<Rightarrow> code_unit" where
  "digit_char d = of_nat (if d < 10 then 48 + d else 87 + d)"

definition js_radix_string :: "nat \<Rightarrow> nat \<Rightarrow> jsstr" where
  "js_radix_string r n = map digit_char (radix_digits r n)"

definition js_number_to_string :: "int \<Rightarrow> jsstr" where
  "js_number_to_string n =
     (if n < 0 then js_lit ''-'' @ js_radix_string 10 (nat (- n)) else js_radix_string 10 (nat n))"

text \<open>\<open>ToString\<close> (and \<open>toString()\<close>, which agrees with it on these values).\<close>

fun js_to_string :: "jsval \<Rightarrow> jsstr" where
  "js_to_string JUndefined = js_lit ''undefined''"
| "js_to_string JNull = js_lit ''null''"
| "js_to_string (JBool b) = (if b then js_lit ''true'' else js_lit ''false'')"
| "js_to_string (JNum n) = js_number_to_string n"
| "js_to_string (JStr s) = s"

text \<open>Reading digits back: the value of a digit list in radix \<open>r\<close>.\<close>

definition radix_value :: "nat \<Rightarrow> nat list \<Rightarrow> nat" where
  "radix_value r ds = foldl (\<lambda>acc d. acc * r + d) 0 ds"

definition digit_value :: "code_unit \<Rightarrow> nat" where
  "digit_value c = (if unat c < 58 then unat c - 48 else unat c - 87)"

subsection \<open>String slice and 32-bit integer operators\<close>

text \<open>\<open>s.slice(start)\<close>: a negative start counts from the end, clamped at 0.\<close>

definition js_slice :: "jsstr \<Rightarrow> int \<Rightarrow> jsstr" where
  "js_slice s start =
     (let len = int (length s);
          from = (if start < 0 then max (len + start) 0 else min start len)
      in drop (nat from) s)"

text \<open>\<open>ToInt32\<close> on an integer value, as ECMAScript states it.\<close>

definition to_int32 :: "int \<Rightarrow> int" where
  "to_int32 x = (let m = x mod 2 ^ 32 in if 2 ^ 31 \<le> m then m - 2 ^ 32 else m)"

definition js_shl :: "int \<Rightarrow> int \<Rightarrow> int" where
  "js_shl x n = to_int32 (to_int32 x * 2 ^ nat (n mod 32))"

definition js_and :: "int \<Rightarrow> int \<Rightarrow> int" where
  "js_and x y = sint (word_of_int (to_int32 x) AND word_of_int (to_int32 y) :: 32 word)"

declare digit_char_def [js_eval] js_radix_string_def [js_eval] js_number_to_string_def [js_eval]
  radix_value_def [js_eval] digit_value_def [js_eval] js_slice_def [js_eval]
  to_int32_def [js_eval] js_shl_def [js_eval] js_and_def [js_eval]

subsection \<open>Digit lemmas\<close>

lemma radix_digits_step: "2 \<le> r \<Longrightarrow> r \<le> n \<Longrightarrow> radix_digits r n = radix_digits r (n div r) @ [n mod r]"
  by (simp add: radix_digits.simps)

lemma radix_digits_small: "n < r \<Longrightarrow> radix_digits r n = [n]"
  by (simp add: radix_digits.simps)

lemma radix_digits_bound: "2 \<le> r \<Longrightarrow> d \<in> set (radix_digits r n) \<Longrightarrow> d < r"
proof (induction r n rule: radix_digits.induct)
  case (1 r n)
  show ?case
  proof (cases "n < r")
    case True
    with "1.prems" show ?thesis by (simp add: radix_digits_small)
  next
    case False
    with "1.prems" "1.IH" show ?thesis by (auto simp: radix_digits_step)
  qed
qed

lemma radix_digits_nonempty: "radix_digits r n \<noteq> []"
  by (induction r n rule: radix_digits.induct) (simp add: radix_digits.simps)

lemma radix_value_append:
  "radix_value r (xs @ ys) = radix_value r xs * r ^ length ys + radix_value r ys"
proof (induction ys rule: rev_induct)
  case Nil
  then show ?case by (simp add: radix_value_def)
next
  case (snoc y ys)
  then show ?case by (simp add: radix_value_def algebra_simps)
qed

lemma radix_value_snoc [simp]: "radix_value r (xs @ [d]) = radix_value r xs * r + d"
  by (simp add: radix_value_append radix_value_def)

lemma radix_value_Nil [simp]: "radix_value r [] = 0"
  by (simp add: radix_value_def)

lemma radix_value_digits: "2 \<le> r \<Longrightarrow> radix_value r (radix_digits r n) = n"
proof (induction r n rule: radix_digits.induct)
  case (1 r n)
  show ?case
  proof (cases "n < r")
    case True
    then show ?thesis by (simp add: radix_digits_small radix_value_def)
  next
    case False
    with "1.prems" "1.IH" show ?thesis by (simp add: radix_digits_step)
  qed
qed

lemma radix_value_less:
  "list_all (\<lambda>d. d < r) ds \<Longrightarrow> radix_value r ds < r ^ length ds"
proof (induction ds rule: rev_induct)
  case Nil
  then show ?case by simp
next
  case (snoc d ds)
  then have v: "radix_value r ds + 1 \<le> r ^ length ds" and d: "d < r" by simp_all
  from d have "radix_value r ds * r + d < (radix_value r ds + 1) * r" by simp
  also from v have "\<dots> \<le> r ^ length ds * r" by (rule mult_le_mono1)
  finally show ?case by (simp add: mult.commute)
qed

lemma radix_value_inj:
  "length xs = length ys \<Longrightarrow> list_all (\<lambda>d. d < r) xs \<Longrightarrow> list_all (\<lambda>d. d < r) ys \<Longrightarrow>
   radix_value r xs = radix_value r ys \<Longrightarrow> xs = ys"
proof (induction xs arbitrary: ys rule: rev_induct)
  case Nil
  then show ?case by simp
next
  case (snoc x xs)
  from snoc.prems(1) have "ys \<noteq> []" by auto
  then obtain ys' y where ys: "ys = ys' @ [y]" by (metis rev_exhaust)
  with snoc.prems have eq: "radix_value r xs * r + x = radix_value r ys' * r + y"
    and xy: "x < r" "y < r"
    by simp_all
  from arg_cong [OF eq, of "\<lambda>v. v mod r"] xy have "x = y" by simp
  moreover from arg_cong [OF eq, of "\<lambda>v. v div r"] xy
  have "radix_value r xs = radix_value r ys'" by simp
  with snoc ys show ?case by simp
qed

lemma length_radix_digits_le:
  "2 \<le> r \<Longrightarrow> n < r ^ k \<Longrightarrow> 0 < k \<Longrightarrow> length (radix_digits r n) \<le> k"
proof (induction r n arbitrary: k rule: radix_digits.induct)
  case (1 r n)
  show ?case
  proof (cases "n < r")
    case True
    with "1.prems" show ?thesis by (simp add: radix_digits_small)
  next
    case False
    then have "k \<noteq> 1" using "1.prems" by auto
    with "1.prems" obtain j where k: "k = Suc j" and j: "0 < j"
      by (cases k) auto
    from "1.prems"(2) k have "n div r < r ^ j"
      by (simp add: less_mult_imp_div_less mult.commute)
    with "1.IH" [of j] "1.prems"(1) False j have "length (radix_digits r (n div r)) \<le> j"
      by simp
    with "1.prems"(1) False k show ?thesis by (simp add: radix_digits_step)
  qed
qed

lemma radix_digits_all: "2 \<le> r \<Longrightarrow> list_all (\<lambda>d. d < r) (radix_digits r n)"
  by (simp add: list_all_iff radix_digits_bound)

lemma length_radix_digits_ge:
  assumes "2 \<le> r" and "r ^ k \<le> n"
  shows "k < length (radix_digits r n)"
proof -
  have "n < r ^ length (radix_digits r n)"
    using radix_value_less [OF radix_digits_all [OF assms(1), of n]] radix_value_digits [OF assms(1)]
    by simp
  with assms(2) have "r ^ k < r ^ length (radix_digits r n)" by simp
  with assms(1) show ?thesis by simp
qed

lemma unat_digit_char:
  "d < 36 \<Longrightarrow> unat (digit_char d) = (if d < 10 then 48 + d else 87 + d)"
  unfolding digit_char_def by (subst unat_of_nat) simp

lemma digit_value_char [simp]: "d < 36 \<Longrightarrow> digit_value (digit_char d) = d"
  by (simp add: digit_value_def unat_digit_char)

lemma digit_char_inj:
  "d1 < 36 \<Longrightarrow> d2 < 36 \<Longrightarrow> digit_char d1 = digit_char d2 \<longleftrightarrow> d1 = d2"
  by (metis digit_value_char)

lemma map_digit_value_char:
  "list_all (\<lambda>d. d < 36) xs \<Longrightarrow> map digit_value (map digit_char xs) = xs"
  by (induction xs) simp_all

lemma map_digit_char_inj:
  "list_all (\<lambda>d. d < 36) xs \<Longrightarrow> list_all (\<lambda>d. d < 36) ys \<Longrightarrow>
   map digit_char xs = map digit_char ys \<longleftrightarrow> xs = ys"
  by (metis map_digit_value_char)

lemma js_radix_string_value:
  "2 \<le> r \<Longrightarrow> r \<le> 36 \<Longrightarrow> radix_value r (map digit_value (js_radix_string r n)) = n"
proof -
  assume r: "2 \<le> r" "r \<le> 36"
  then have "list_all (\<lambda>d. d < 36) (radix_digits r n)"
    using radix_digits_bound [OF r(1)] by (fastforce simp: list_all_iff)
  then have "map digit_value (js_radix_string r n) = radix_digits r n"
    unfolding js_radix_string_def by (rule map_digit_value_char)
  with r show ?thesis by (simp add: radix_value_digits)
qed

subsection \<open>32-bit operators on words\<close>
lemma to_int32_sint: "to_int32 x = sint (word_of_int x :: 32 word)"
proof -
  define m where "m = x mod 2 ^ 32"
  have m: "0 \<le> m" "m < 2 ^ 32" by (simp_all add: m_def)
  have "(x + 2 ^ 31) mod 2 ^ 32 = (m + 2 ^ 31) mod (2 ^ 32 :: int)"
    by (simp add: m_def mod_add_left_eq)
  moreover have "(m + 2 ^ 31) mod (2 ^ 32 :: int) = (if 2 ^ 31 \<le> m then m + 2 ^ 31 - 2 ^ 32 else m + 2 ^ 31)"
  proof (cases "2 ^ 31 \<le> m")
    case True
    then have "(m + 2 ^ 31) mod (2 ^ 32 :: int) = ((m + 2 ^ 31 - 2 ^ 32) + 1 * 2 ^ 32) mod 2 ^ 32" by (simp add: algebra_simps)
    also have "\<dots> = m + 2 ^ 31 - 2 ^ 32" using True m by (simp only: mod_mult_self1) simp
    finally show ?thesis using True by simp
  next
    case False
    then show ?thesis using m by simp
  qed
  moreover have "to_int32 x = (if 2 ^ 31 \<le> m then m - 2 ^ 32 else m)"
    by (simp only: to_int32_def m_def Let_def)
  moreover have "sint (word_of_int x :: 32 word) = (x + 2 ^ 31) mod 2 ^ 32 - 2 ^ 31"
    by (simp only: int_word_sint) simp
  ultimately show ?thesis by auto
qed

lemma word_of_int_to_int32 [simp]: "(word_of_int (to_int32 x) :: 32 word) = word_of_int x"
  by (simp add: to_int32_sint)

lemma word_of_int_js_and_self [simp]: "(word_of_int (js_and x x) :: 32 word) = word_of_int x"
  by (simp add: js_and_def)

lemma word_of_int_js_shl5 [simp]: "(word_of_int (js_shl x 5) :: 32 word) = word_of_int x * 32"
  by (simp add: js_shl_def)

lemma js_and_in_range: "sint (word_of_int (js_and x y) :: 32 word) = js_and x y"
  by (simp add: js_and_def)
end
