(* ===== verification/Key.thy ===== *)
theory Key
  imports JsValue
begin

text \<open>
  The state of a \<open>FinanceFlowCrypto\<close> object and its constructor
  (src/encryption.js, lines 4--14). The only field is \<open>this.key\<close>, set once by
  \<open>generateEncryptionKey()\<close> from a fixed seed and the last six decimal digits of
  \<open>Date.now()\<close>; the clock reading is a parameter \<open>now\<close> of the model. The lemmas show
  that the key is ASCII, has 30 code units for every timestamp of six digits or more, and
  is determined by, and determines, \<open>now mod 10^6\<close>: two objects built in different
  milliseconds of the same 1000-second window agree only when that remainder agrees.
\<close>

record finance_flow_crypto =
  key :: jsstr

definition key_seed :: jsstr where
  "key_seed = js_lit ''FinanceFlow2024SecureApp''"

definition generate_encryption_key :: "nat \<Rightarrow> jsstr" where
  "generate_encryption_key now =
     (let seed = key_seed in seed @ js_slice (js_number_to_string (int now)) (-6))"

definition new_crypto :: "nat \<Rightarrow> finance_flow_crypto" where
  "new_crypto now = \<lparr>key = generate_encryption_key now\<rparr>"

text \<open>The last six decimal digits of the clock reading, as numbers (a proof device).\<close>

definition clock_digits :: "nat \<Rightarrow> nat list" where
  "clock_digits now = drop (length (radix_digits 10 now) - 6) (radix_digits 10 now)"

declare key_seed_def [js_eval] generate_encryption_key_def [js_eval] new_crypto_def [js_eval]

subsection \<open>Shape of the key\<close>

lemma latin1_key_seed: "latin1 key_seed"
  by (simp add: key_seed_def js_lit_def unat_of_nat_byte)

lemma length_key_seed [simp]: "length key_seed = 24"
  by (simp add: key_seed_def)

lemma js_number_to_string_nat: "js_number_to_string (int n) = js_radix_string 10 n"
  by (simp add: js_number_to_string_def)

lemma latin1_js_radix_string: "2 \<le> r \<Longrightarrow> r \<le> 36 \<Longrightarrow> latin1 (js_radix_string r n)"
  using radix_digits_bound [of r _ n]
  by (fastforce simp: latin1_iff js_radix_string_def unat_digit_char)

lemma js_slice_neg: "0 < k \<Longrightarrow> js_slice s (- int k) = drop (length s - k) s"
  by (simp add: js_slice_def Let_def max_def nat_diff_distrib)

lemma latin1_drop: "latin1 s \<Longrightarrow> latin1 (drop n s)"
  by (auto simp: latin1_iff dest: in_set_dropD)

lemma generate_encryption_key_digits:
  "generate_encryption_key now =
     key_seed @ drop (length (radix_digits 10 now) - 6) (js_radix_string 10 now)"
  using js_slice_neg [of 6]
  by (simp add: generate_encryption_key_def js_number_to_string_nat js_radix_string_def)

lemma latin1_generate_encryption_key: "latin1 (generate_encryption_key now)"
  by (simp add: generate_encryption_key_digits latin1_key_seed latin1_drop latin1_js_radix_string)

lemma latin1_new_crypto_key [simp]: "latin1 (key (new_crypto now))"
  by (simp add: new_crypto_def latin1_generate_encryption_key)

subsection \<open>The key is the last six digits of the clock\<close>

lemma generate_encryption_key_clock_digits:
  "generate_encryption_key now = key_seed @ map digit_char (clock_digits now)"
  by (simp add: generate_encryption_key_digits clock_digits_def js_radix_string_def drop_map)

lemma clock_digits_all: "list_all (\<lambda>d. d < 10) (clock_digits now)"
  using radix_digits_bound [of 10 _ now]
  by (auto simp: clock_digits_def list_all_iff dest: in_set_dropD)

lemma clock_digits_value:
  assumes "10 ^ 5 \<le> now"
  shows "length (clock_digits now) = 6 \<and> radix_value 10 (clock_digits now) = now mod 10 ^ 6"
proof -
  let ?ds = "radix_digits 10 now"
  have len: "6 \<le> length ?ds"
    using length_radix_digits_ge [of 10 5 now] assms by simp
  have split: "?ds = take (length ?ds - 6) ?ds @ clock_digits now"
    by (simp add: clock_digits_def)
  have six: "length (clock_digits now) = 6"
    using len by (simp add: clock_digits_def)
  have digits: "radix_value 10 ?ds = now"
    by (simp add: radix_value_digits)
  have "now = radix_value 10 (take (length ?ds - 6) ?ds @ clock_digits now)"
    by (simp only: split [symmetric] digits)
  also have "\<dots> = radix_value 10 (take (length ?ds - 6) ?ds) * 10 ^ 6 + radix_value 10 (clock_digits now)"
    by (simp only: radix_value_append six)
  moreover have "radix_value 10 (clock_digits now) < 10 ^ 6"
    using radix_value_less [OF clock_digits_all [of now]] six by simp
  ultimately have "now mod 10 ^ 6 = radix_value 10 (clock_digits now)"
    by (metis mod_mult_self3 mod_less)
  with six show ?thesis by simp
qed

lemma clock_digits_eq_iff:
  assumes "10 ^ 5 \<le> now1" and "10 ^ 5 \<le> now2"
  shows "clock_digits now1 = clock_digits now2 \<longleftrightarrow> now1 mod 10 ^ 6 = now2 mod 10 ^ 6"
  using clock_digits_value [OF assms(1)] clock_digits_value [OF assms(2)]
    radix_value_inj [OF _ clock_digits_all clock_digits_all, of now1 now2]
  by auto

lemma length_generate_encryption_key:
  "10 ^ 5 \<le> now \<Longrightarrow> length (generate_encryption_key now) = 30"
  using clock_digits_value [of now] by (simp add: generate_encryption_key_clock_digits)

lemma generate_encryption_key_eq:
  assumes "10 ^ 5 \<le> now1" and "10 ^ 5 \<le> now2"
  shows "generate_encryption_key now1 = generate_encryption_key now2 \<longleftrightarrow>
         now1 mod 10 ^ 6 = now2 mod 10 ^ 6"
proof -
  have "list_all (\<lambda>d. d < 36) (clock_digits n)" for n
    using clock_digits_all [of n] by (auto simp: list_all_iff)
  then show ?thesis
    using clock_digits_eq_iff [OF assms]
    by (simp add: generate_encryption_key_clock_digits map_digit_char_inj)
qed

lemma unat_decimal_digit_char [simp]: "d < 10 \<Longrightarrow> unat (digit_char d) = 48 + d"
  by (simp add: unat_digit_char)

lemma decimal_value_digit_chars:
  "list_all (\<lambda>d. d < 10) ds \<Longrightarrow>
   foldl (\<lambda>v c. 10 * v + (unat c - 48)) 0 (map digit_char ds) = radix_value 10 ds"
  unfolding radix_value_def foldl_map
  by (rule foldl_cong) (simp_all add: list_all_iff mult.commute)

subsection \<open>Properties\<close>

text \<open>
  C21 (shape). For every timestamp of six digits or more (all real ones), the key is 30
  code units: the seed \<open>'FinanceFlow2024SecureApp'\<close> followed by six ASCII decimal
  digits \<open>'0'..'9'\<close> that spell \<open>now mod 10^6\<close>, the last six digits of the clock.
\<close>

theorem generate_encryption_key_shape:
  assumes "10 ^ 5 \<le> now"
  shows "take 24 (generate_encryption_key now) = js_lit ''FinanceFlow2024SecureApp'' \<and>
    length (generate_encryption_key now) = 30 \<and>
    list_all (\<lambda>c. 48 \<le> unat c \<and> unat c \<le> 57) (drop 24 (generate_encryption_key now)) \<and>
    foldl (\<lambda>v c. 10 * v + (unat c - 48)) 0 (drop 24 (generate_encryption_key now)) = now mod 10 ^ 6"
proof -
  have ds: "list_all (\<lambda>d. d < 10) (clock_digits now)" by (rule clock_digits_all)
  have suffix: "drop 24 (generate_encryption_key now) = map digit_char (clock_digits now)"
    by (simp add: generate_encryption_key_clock_digits)
  have "list_all (\<lambda>c. 48 \<le> unat c \<and> unat c \<le> 57) (map digit_char (clock_digits now))"
    using ds by (auto simp: list_all_iff)
  moreover have "foldl (\<lambda>v c. 10 * v + (unat c - 48)) 0 (map digit_char (clock_digits now)) =
      now mod 10 ^ 6"
    using decimal_value_digit_chars [OF ds] clock_digits_value [OF assms] by simp
  ultimately show ?thesis
    using length_generate_encryption_key [OF assms] suffix
    by (simp add: generate_encryption_key_clock_digits key_seed_def)
qed

text \<open>
  C12 (the key repeats). The key depends on the clock only through \<open>now mod 10^6\<close>: objects
  built any whole number of 1000-second periods apart hold the same key, so the key space
  has a million values, all derivable from the clock.
\<close>

theorem generate_encryption_key_periodic:
  "10 ^ 5 \<le> now \<Longrightarrow> generate_encryption_key (now + k * 10 ^ 6) = generate_encryption_key now"
  by (simp add: generate_encryption_key_eq)

theorem generate_encryption_key_shape_witness:
  "10 ^ 5 \<le> (1700000123456::nat) \<and>
   take 24 (generate_encryption_key 1700000123456) = js_lit ''FinanceFlow2024SecureApp'' \<and>
   drop 24 (generate_encryption_key 1700000123456) = js_lit ''123456''"
proof -
  have h: "10 ^ 5 \<le> (1700000123456::nat)" by simp
  show ?thesis using h generate_encryption_key_shape [OF h]
    by (simp add: js_eval radix_digits.simps js_lit_def)
qed
theorem generate_encryption_key_periodic_witness:
  "10 ^ 5 \<le> (1700000123456::nat) \<and>
   generate_encryption_key 1700001123456 = generate_encryption_key 1700000123456"
proof -
  have h: "10 ^ 5 \<le> (1700000123456::nat)" by simp
  show ?thesis using h generate_encryption_key_periodic [OF h, of 1] by simp
qed

end
