(* ===== verification/Base64.thy ===== *)
theory Base64
  imports JsValue
begin

text \<open>
  The browser functions \<open>btoa\<close> and \<open>atob\<close> that \<open>encrypt\<close> and \<open>decrypt\<close>
  (src/encryption.js, lines 31 and 44) call, modelled from the HTML standard: \<open>btoa\<close>
  raises \<open>InvalidCharacterError\<close> on a code unit above 255 and otherwise encodes the
  bytes in base64 with padding; \<open>atob\<close> runs the forgiving-base64 decoder (strip ASCII
  whitespace, drop one or two trailing \<open>=\<close> when the length is a multiple of 4, reject
  a length of 1 modulo 4 and any character outside the alphabet, then decode, dropping the
  leftover bits of a final partial group). The main lemma is the round trip
  \<open>atob (btoa s) = s\<close> for every Latin-1 string.
\<close>

subsection \<open>The alphabet\<close>

definition b64_char :: "nat \<Rightarrow> code_unit" where
  "b64_char n =
     of_nat (if n < 26 then 65 + n
             else if n < 52 then 71 + n
             else if n < 62 then n - 4
             else if n = 62 then 43 else 47)"

definition b64_index :: "code_unit \<Rightarrow> nat option" where
  "b64_index c =
     (let u = unat c in
      if 65 \<le> u \<and> u \<le> 90 then Some (u - 65)
      else if 97 \<le> u \<and> u \<le> 122 then Some (u - 71)
      else if 48 \<le> u \<and> u \<le> 57 then Some (u + 4)
      else if u = 43 then Some 62
      else if u = 47 then Some 63
      else None)"

definition b64_pad :: code_unit where
  "b64_pad = 61"

definition ascii_whitespace :: "code_unit \<Rightarrow> bool" where
  "ascii_whitespace c \<longleftrightarrow> c \<in> {9, 10, 12, 13, 32}"

subsection \<open>Encoding\<close>

text \<open>Three bytes become four 6-bit groups; a final one or two bytes become two or three.\<close>

fun b64_sextets :: "nat list \<Rightarrow> nat list" where
  "b64_sextets (a # b # c # rest) =
     [a div 4, (a mod 4) * 16 + b div 16, (b mod 16) * 4 + c div 64, c mod 64] @ b64_sextets rest"
| "b64_sextets [a, b] = [a div 4, (a mod 4) * 16 + b div 16, (b mod 16) * 4]"
| "b64_sextets [a] = [a div 4, (a mod 4) * 16]"
| "b64_sextets [] = []"

definition b64_encode :: "nat list \<Rightarrow> jsstr" where
  "b64_encode bs =
     map b64_char (b64_sextets bs) @ replicate ((3 - length bs mod 3) mod 3) b64_pad"

definition btoa :: "jsstr \<Rightarrow> dom_exception + jsstr" where
  "btoa s = (if latin1 s then Inr (b64_encode (map unat s)) else Inl InvalidCharacterError)"

subsection \<open>Forgiving decoding\<close>

text \<open>Four 6-bit groups become three bytes; a final two or three become one or two.\<close>

fun b64_decode :: "nat list \<Rightarrow> nat list" where
  "b64_decode (a # b # c # d # rest) =
     [a * 4 + b div 16, (b mod 16) * 16 + c div 4, (c mod 4) * 64 + d] @ b64_decode rest"
| "b64_decode [a, b, c] = [a * 4 + b div 16, (b mod 16) * 16 + c div 4]"
| "b64_decode [a, b] = [a * 4 + b div 16]"
| "b64_decode [a] = []"
| "b64_decode [] = []"

definition strip_padding :: "jsstr \<Rightarrow> jsstr" where
  "strip_padding d =
     (case rev d of
        p # q # r \<Rightarrow>
          if p = b64_pad \<and> q = b64_pad then rev r
          else if p = b64_pad then rev (q # r) else d
      | [p] \<Rightarrow> if p = b64_pad then [] else d
      | [] \<Rightarrow> d)"

definition atob :: "jsstr \<Rightarrow> dom_exception + jsstr" where
  "atob s =
     (let d0 = filter (\<lambda>c. \<not> ascii_whitespace c) s;
          d = (if length d0 mod 4 = 0 then strip_padding d0 else d0)
      in if length d mod 4 = 1 then Inl InvalidCharacterError
         else case those (map b64_index d) of
                None \<Rightarrow> Inl InvalidCharacterError
              | Some xs \<Rightarrow> Inr (map of_nat (b64_decode xs)))"

declare b64_char_def [js_eval] b64_index_def [js_eval] b64_pad_def [js_eval]
  ascii_whitespace_def [js_eval] b64_encode_def [js_eval] btoa_def [js_eval]
  strip_padding_def [js_eval] atob_def [js_eval]

subsection \<open>Alphabet lemmas\<close>

lemma unat_b64_char:
  "unat (b64_char n) =
     (if n < 26 then 65 + n else if n < 52 then 71 + n else if n < 62 then n - 4
      else if n = 62 then 43 else 47)"
  unfolding b64_char_def by (subst unat_of_nat) simp

lemma b64_index_char [simp]: "n < 64 \<Longrightarrow> b64_index (b64_char n) = Some n"
  by (auto simp add: b64_index_def unat_b64_char Let_def)

lemma b64_char_not_pad [simp]: "b64_char n \<noteq> b64_pad"
  by (auto simp add: word_unat_eq_iff unat_b64_char b64_pad_def)

lemma b64_char_not_ws [simp]: "\<not> ascii_whitespace (b64_char n)"
  by (auto simp add: word_unat_eq_iff unat_b64_char ascii_whitespace_def)

lemma b64_pad_not_ws [simp]: "\<not> ascii_whitespace b64_pad"
  by (simp add: b64_pad_def ascii_whitespace_def)

lemma those_b64_index:
  "list_all (\<lambda>x. x < 64) xs \<Longrightarrow> those (map (b64_index \<circ> b64_char) xs) = Some xs"
  by (induction xs) simp_all

subsection \<open>Groups and lengths\<close>

lemma group_div [simp]: "y < k \<Longrightarrow> (x * k + y) div k = (x::nat)"
  by simp

lemma group_mod [simp]: "y < k \<Longrightarrow> (x * k + y) mod k = (y::nat)"
  by simp

lemma b64_sextets_bound:
  "list_all (\<lambda>b. b < 256) bs \<Longrightarrow> list_all (\<lambda>x. x < 64) (b64_sextets bs)"
  by (induction bs rule: b64_sextets.induct) auto

lemma b64_decode_sextets:
  "list_all (\<lambda>b. b < 256) bs \<Longrightarrow> b64_decode (b64_sextets bs) = bs"
proof (induction bs rule: b64_sextets.induct)
  case (1 a b c rest)
  have "b div 16 < 16" "c div 64 < 4"
    using "1.prems" by (simp_all add: div_less_iff_less_mult)
  with 1 show ?case by simp
next
  case (2 a b)
  have "b div 16 < 16"
    using "2.prems" by (simp add: div_less_iff_less_mult)
  with 2 show ?case by simp
qed simp_all

lemma length_b64_sextets_mod4: "length (b64_sextets bs) mod 4 \<noteq> 1"
  by (induction bs rule: b64_sextets.induct) simp_all

lemma b64_encode_Cons3:
  "b64_encode (a # b # c # rest) =
     map b64_char [a div 4, (a mod 4) * 16 + b div 16, (b mod 16) * 4 + c div 64, c mod 64]
     @ b64_encode rest"
  by (simp add: b64_encode_def)

lemma length_b64_encode: "length (b64_encode bs) = 4 * ((length bs + 2) div 3)"
proof (induction bs rule: b64_sextets.induct)
  case (1 a b c rest)
  have "(length rest + 5) div 3 = Suc ((length rest + 2) div 3)"
    using div_add_self2 [of 3 "length rest + 2"] by simp
  with 1 show ?case by (simp add: b64_encode_Cons3 add.commute)
qed (simp_all add: b64_encode_def)

lemma b64_encode_no_ws: "filter (\<lambda>c. \<not> ascii_whitespace c) (b64_encode bs) = b64_encode bs"
  by (auto simp: b64_encode_def filter_id_conv)

lemma strip_padding_encoded:
  assumes "k \<le> 2"
  shows "strip_padding (map b64_char xs @ replicate k b64_pad) = map b64_char xs"
proof -
  have k: "k = 0 \<or> k = 1 \<or> k = 2" using assms by arith
  show ?thesis
  proof (cases "rev xs")
    case Nil
    then have "xs = []" by simp
    with k show ?thesis by (auto simp: strip_padding_def numeral_2_eq_2)
  next
    case (Cons y ys)
    then have "rev (map b64_char xs) = b64_char y # map b64_char ys"
      by (simp add: rev_map)
    with k show ?thesis
      by (auto simp: strip_padding_def numeral_2_eq_2 split: list.split)
  qed
qed

subsection \<open>Round trip\<close>

lemma atob_b64_encode:
  assumes "list_all (\<lambda>b. b < 256) bs"
  shows "atob (b64_encode bs) = Inr (map of_nat bs)"
proof -
  have "(3 - length bs mod 3) mod 3 \<le> 2" by arith
  then have strip: "strip_padding (b64_encode bs) = map b64_char (b64_sextets bs)"
    by (simp add: b64_encode_def strip_padding_encoded)
  have "length (b64_encode bs) mod 4 = 0"
    by (simp add: length_b64_encode)
  with assms strip length_b64_sextets_mod4 [of bs] show ?thesis
    by (simp add: atob_def b64_encode_no_ws those_b64_index
        b64_sextets_bound b64_decode_sextets)
qed

lemma latin1_bytes: "latin1 s \<longleftrightarrow> list_all (\<lambda>b. b < 256) (map unat s)"
  by (simp add: latin1_def list_all_iff)

lemma btoa_Inr: "latin1 s \<Longrightarrow> btoa s = Inr (b64_encode (map unat s))"
  by (simp add: btoa_def)

lemma btoa_Inl: "\<not> latin1 s \<Longrightarrow> btoa s = Inl InvalidCharacterError"
  by (simp add: btoa_def)

lemma atob_btoa_Inr: "latin1 s \<Longrightarrow> atob (b64_encode (map unat s)) = Inr s"
  by (simp add: atob_b64_encode latin1_bytes comp_def)

subsection \<open>Rejection of non-Latin-1 input\<close>

lemma those_None: "x \<in> set xs \<Longrightarrow> f x = None \<Longrightarrow> those (map f xs) = None"
  by (induction xs) (auto split: option.split)

lemma strip_padding_keeps:
  assumes "c \<in> set d" and "c \<noteq> b64_pad"
  shows "c \<in> set (strip_padding d)"
proof -
  have c: "c \<in> set (rev d)" using assms(1) by simp
  show ?thesis
  proof (cases "rev d")
    case Nil
    then show ?thesis using c by simp
  next
    case (Cons p r)
    show ?thesis
    proof (cases r)
      case Nil
      with Cons c assms(2) show ?thesis by (simp add: strip_padding_def)
    next
      case (Cons q r')
      with \<open>rev d = p # r\<close> c assms show ?thesis by (auto simp: strip_padding_def)
    qed
  qed
qed

lemma b64_index_wide: "256 \<le> unat c \<Longrightarrow> b64_index c = None"
  by (simp add: b64_index_def Let_def)

lemma not_ws_wide: "256 \<le> unat c \<Longrightarrow> \<not> ascii_whitespace c"
  by (auto simp: ascii_whitespace_def)

lemma atob_non_latin1:
  assumes "\<not> latin1 s"
  shows "atob s = Inl InvalidCharacterError"
proof -
  from assms obtain c where c: "c \<in> set s" "256 \<le> unat c"
    by (auto simp: latin1_iff not_less)
  then have pad: "c \<noteq> b64_pad" by (auto simp: b64_pad_def)
  let ?raw = "filter (\<lambda>c. \<not> ascii_whitespace c) s"
  have d0: "c \<in> set ?raw" using c by (simp add: not_ws_wide)
  let ?d = "if length ?raw mod 4 = 0 then strip_padding ?raw else ?raw"
  have "c \<in> set ?d" using d0 pad by (simp add: strip_padding_keeps)
  then have "those (map b64_index ?d) = None"
    using c(2) by (simp add: those_None b64_index_wide)
  then show ?thesis by (simp add: atob_def Let_def)
qed

subsection \<open>Output alphabet and decoded length\<close>

lemma unat_b64_char_less: "unat (b64_char n) < 128"
  by (auto simp: unat_b64_char)

lemma latin1_b64_encode [latin1_simps]: "latin1 (b64_encode bs)"
proof -
  have "unat (b64_char n) < 256" for n
    using unat_b64_char_less [of n] by simp
  then show ?thesis by (auto simp: latin1_iff b64_encode_def b64_pad_def)
qed

lemma length_b64_decode_le: "length (b64_decode xs) \<le> length xs"
  by (induction xs rule: b64_decode.induct) simp_all

lemma length_b64_decode: "xs \<noteq> [] \<Longrightarrow> length (b64_decode xs) < length xs"
proof (cases xs rule: b64_decode.cases)
  case (1 a b c d rest)
  then show ?thesis using length_b64_decode_le [of rest] by simp
qed simp_all

lemma those_length: "those ys = Some xs \<Longrightarrow> length xs = length ys"
  by (induction ys arbitrary: xs) (auto split: option.splits)

lemma length_strip_padding: "length (strip_padding d) \<le> length d"
  by (auto simp: strip_padding_def split: list.split dest: arg_cong [where f = length])

lemma atob_shrinks:
  assumes "atob p = Inr b" and "p \<noteq> []"
  shows "length b < length p"
proof -
  let ?raw = "filter (\<lambda>c. \<not> ascii_whitespace c) p"
  let ?d = "if length ?raw mod 4 = 0 then strip_padding ?raw else ?raw"
  from assms(1) obtain xs where xs: "those (map b64_index ?d) = Some xs"
    and b: "b = map of_nat (b64_decode xs)"
    by (auto simp: atob_def Let_def split: if_splits option.splits)
  have d0: "length ?raw \<le> length p"
    by (rule length_filter_le)
  have "length ?d \<le> length p"
  proof (cases "length ?raw mod 4 = 0")
    case True
    then show ?thesis using le_trans [OF length_strip_padding [of ?raw] d0] by simp
  next
    case False
    then show ?thesis using d0 by simp
  qed
  moreover have "length xs = length ?d"
    using those_length [OF xs] by simp
  ultimately show ?thesis
    using b assms(2) length_b64_decode [of xs] by (cases "xs = []") auto
qed

lemma atob_bad_length:
  "length (filter (\<lambda>c. \<not> ascii_whitespace c) s) mod 4 = 1 \<Longrightarrow> atob s = Inl InvalidCharacterError"
  by (simp add: atob_def Let_def)

end
