(* ===== verification/Cipher.thy ===== *)
theory Cipher
  imports Key Base64
begin

text \<open>
  The methods \<open>encrypt\<close> and \<open>decrypt\<close> of \<open>FinanceFlowCrypto\<close>
  (src/encryption.js, lines 16--59). Each XORs the code units of its input with the key,
  repeated cyclically (the index loops at lines 24--28 and 48--52, modelled once as
  \<open>xor_loop\<close>); \<open>encrypt\<close> then applies \<open>btoa\<close>, \<open>decrypt\<close> first applies
  \<open>atob\<close>. The \<open>try\<close> block of each method is a definition of its own returning
  \<open>dom_exception + jsstr\<close>; the method itself is the \<open>catch\<close> that falls back to its
  input. The lemmas show: the loop XORs the text with the key repeated cyclically, and
  equals the map \<open>xor_ref\<close> over the indices, an involution; the round trip
  \<open>decrypt (encrypt t) = t\<close> for every Latin-1 text under a Latin-1 key; that a text
  with a code unit above 255 is returned unencrypted and a malformed ciphertext is kept;
  and that a ciphertext opened with another key yields the XOR of the two keys over the
  plaintext, never an error.
\<close>

subsection \<open>The XOR loop\<close>

text \<open>
  \<open>key.charCodeAt(i % key.length)\<close>: for the empty key, \<open>i % 0\<close> is \<open>NaN\<close>, the
  read is \<open>NaN\<close>, and \<open>charCode ^ NaN\<close> is \<open>charCode ^ 0\<close>.
\<close>

definition key_code :: "jsstr \<Rightarrow> nat \<Rightarrow> code_unit" where
  "key_code k i = (if k = [] then 0 else k ! (i mod length k))"

function xor_loop :: "jsstr \<Rightarrow> jsstr \<Rightarrow> nat \<Rightarrow> jsstr \<Rightarrow> jsstr" where
  "xor_loop k text i acc =
     (if i < length text
      then xor_loop k text (Suc i) (acc @ [(text ! i) XOR key_code k i])
      else acc)"
  by pat_completeness auto
termination
  by (relation "measure (\<lambda>(k, text, i, acc). length text - i)") auto

declare xor_loop.simps [simp del]

text \<open>The reference: code unit \<open>j\<close> of the result is \<open>text ! j XOR key_code k j\<close>.\<close>

definition xor_ref :: "jsstr \<Rightarrow> jsstr \<Rightarrow> jsstr" where
  "xor_ref k text = map (\<lambda>j. (text ! j) XOR key_code k j) [0..<length text]"

subsection \<open>encrypt and decrypt\<close>

definition encrypt_try :: "finance_flow_crypto \<Rightarrow> jsstr \<Rightarrow> dom_exception + jsstr" where
  "encrypt_try this text =
     (let k = key this;
          encrypted = xor_loop k text 0 []
      in btoa encrypted)"

definition encrypt :: "finance_flow_crypto \<Rightarrow> jsstr \<Rightarrow> jsstr" where
  "encrypt this text =
     (if text = [] then text
      else case encrypt_try this text of
             Inl _ \<Rightarrow> text
           | Inr r \<Rightarrow> r)"

definition decrypt_try :: "finance_flow_crypto \<Rightarrow> jsval \<Rightarrow> dom_exception + jsstr" where
  "decrypt_try this encrypted_text =
     (case atob (js_to_string encrypted_text) of
        Inl e \<Rightarrow> Inl e
      | Inr encrypted \<Rightarrow> Inr (xor_loop (key this) encrypted 0 []))"

definition decrypt :: "finance_flow_crypto \<Rightarrow> jsval \<Rightarrow> jsval" where
  "decrypt this encrypted_text =
     (if \<not> truthy encrypted_text then encrypted_text
      else case decrypt_try this encrypted_text of
             Inl _ \<Rightarrow> encrypted_text
           | Inr r \<Rightarrow> JStr r)"

declare key_code_def [js_eval] xor_ref_def [js_eval] encrypt_try_def [js_eval]
  encrypt_def [js_eval] decrypt_try_def [js_eval] decrypt_def [js_eval]

subsection \<open>The loop against its reference\<close>

lemma xor_loop_eq:
  "xor_loop k t i acc = acc @ map (\<lambda>j. (t ! j) XOR key_code k j) [i..<length t]"
proof (induction k t i acc rule: xor_loop.induct)
  case (1 k t i acc)
  show ?case
  proof (cases "i < length t")
    case True
    with "1.IH" show ?thesis
      by (simp add: xor_loop.simps [of k t i acc] upt_conv_Cons)
  next
    case False
    then show ?thesis by (simp add: xor_loop.simps [of k t i acc])
  qed
qed

lemma length_xor_ref [simp]: "length (xor_ref k t) = length t"
  by (simp add: xor_ref_def)

lemma nth_xor_ref [simp]: "j < length t \<Longrightarrow> xor_ref k t ! j = (t ! j) XOR key_code k j"
  by (simp add: xor_ref_def)

lemma xor_ref_Nil [simp]: "xor_ref k [] = []"
  by (simp add: xor_ref_def)

lemma xor_ref_eq_Nil [simp]: "xor_ref k t = [] \<longleftrightarrow> t = []"
  by (simp add: xor_ref_def)

lemma xor_ref_involution [simp]: "xor_ref k (xor_ref k t) = t"
  by (simp add: list_eq_iff_nth_eq)

lemma key_code_latin1 [latin1_simps]: "latin1 k \<Longrightarrow> unat (key_code k i) < 256"
  by (simp add: key_code_def latin1_nth)

lemma latin1_xor_ref [latin1_simps]:
  assumes "latin1 k"
  shows "latin1 (xor_ref k t) \<longleftrightarrow> latin1 t"
proof -
  have "unat (t ! j XOR key_code k j) < 256 \<longleftrightarrow> unat (t ! j) < 256" for j
    using unat_xor_byte unat_xor_not_byte key_code_latin1 [OF assms, of j] not_le
    by metis
  then show ?thesis
    by (simp add: latin1_iff all_set_conv_all_nth)
qed

subsection \<open>The try blocks\<close>

lemma encrypt_try_latin1:
  "latin1 (key c) \<Longrightarrow> latin1 t \<Longrightarrow>
   encrypt_try c t = Inr (b64_encode (map unat (xor_ref (key c) t)))"
  by (simp add: encrypt_try_def xor_loop_eq xor_ref_def [symmetric] btoa_Inr latin1_xor_ref)

lemma encrypt_try_error:
  "latin1 (key c) \<Longrightarrow> \<not> latin1 t \<Longrightarrow> encrypt_try c t = Inl InvalidCharacterError"
  by (simp add: encrypt_try_def xor_loop_eq xor_ref_def [symmetric] btoa_Inl latin1_xor_ref)

lemma decrypt_try_encoded:
  "latin1 e \<Longrightarrow> decrypt_try c (JStr (b64_encode (map unat e))) = Inr (xor_ref (key c) e)"
  by (simp add: decrypt_try_def atob_btoa_Inr xor_loop_eq xor_ref_def)

subsection \<open>encrypt and decrypt on each branch\<close>

lemma b64_encode_eq_Nil [simp]: "b64_encode bs = [] \<longleftrightarrow> bs = []"
  by (cases bs rule: b64_sextets.cases) (simp_all add: b64_encode_def)

lemma encrypt_latin1:
  "latin1 (key c) \<Longrightarrow> latin1 t \<Longrightarrow> t \<noteq> [] \<Longrightarrow>
   encrypt c t = b64_encode (map unat (xor_ref (key c) t))"
  by (simp add: encrypt_def encrypt_try_latin1)

lemma encrypt_wide:
  "latin1 (key c) \<Longrightarrow> \<not> latin1 t \<Longrightarrow> encrypt c t = t"
  by (simp add: encrypt_def encrypt_try_error)

lemma decrypt_wide: "\<not> latin1 s \<Longrightarrow> decrypt c (JStr s) = JStr s"
  by (simp add: decrypt_def decrypt_try_def atob_non_latin1)

lemma decrypt_encoded:
  "latin1 e \<Longrightarrow> e \<noteq> [] \<Longrightarrow> decrypt c (JStr (b64_encode (map unat e))) = JStr (xor_ref (key c) e)"
  by (simp add: decrypt_def decrypt_try_encoded)

lemma decrypt_encrypt:
  assumes "latin1 (key c)"
  shows "decrypt c (JStr (encrypt c t)) = JStr t"
proof (cases "latin1 t")
  case True
  show ?thesis
  proof (cases "t = []")
    case True
    then show ?thesis by (simp add: encrypt_def decrypt_def)
  next
    case False
    with \<open>latin1 t\<close> assms show ?thesis
      by (simp add: encrypt_latin1 decrypt_encoded latin1_xor_ref)
  qed
next
  case False
  with assms show ?thesis by (simp add: encrypt_wide decrypt_wide)
qed

lemma encrypt_Nil [simp]: "encrypt c [] = []"
  by (simp add: encrypt_def)

lemma xor_ref_other_key:
  assumes "length k1 = length k2" and "k1 \<noteq> k2" and "length k1 \<le> length t"
  shows "xor_ref k2 (xor_ref k1 t) \<noteq> t"
proof
  assume eq: "xor_ref k2 (xor_ref k1 t) = t"
  from assms(1,2) obtain j where j: "j < length k1" "k1 ! j \<noteq> k2 ! j"
    by (auto simp: list_eq_iff_nth_eq)
  with assms(3) have jt: "j < length t" by simp
  from j have ne: "k1 \<noteq> []" "k2 \<noteq> []" using assms(1) by auto
  have "xor_ref k2 (xor_ref k1 t) ! j = ((t ! j) XOR k1 ! j) XOR k2 ! j"
    using jt j(1) assms(1) ne by (simp add: key_code_def)
  with eq have "((t ! j) XOR k1 ! j) XOR k2 ! j = t ! j" by simp
  then have "k1 ! j = k2 ! j"
    by (metis bit.xor_left_self xor.commute)
  then show False using j(2) by simp
qed

subsection \<open>Properties\<close>

text \<open>
  C1 (round trip). For the key of any session, decrypting what \<open>encrypt\<close> returned
  gives back the original text, for every string: Latin-1 text through the cipher,
  wider text through the two fallbacks.
\<close>

theorem decrypt_encrypt_session:
  "decrypt (new_crypto now) (JStr (encrypt (new_crypto now) t)) = JStr t"
  by (simp add: decrypt_encrypt)

text \<open>
  C2 (error path). A text with a code unit above 255 (any character outside Latin-1, such
  as a name in Devanagari) makes \<open>btoa\<close> throw; the \<open>catch\<close> returns the text itself,
  so \<open>encrypt\<close> hands back the plaintext as if it were ciphertext.
\<close>

theorem encrypt_returns_wide_plaintext:
  "\<not> latin1 t \<Longrightarrow> encrypt (new_crypto now) t = t"
  by (simp add: encrypt_wide)

text \<open>
  C10 (no integrity check). A ciphertext made under one key and opened under a Latin-1
  key of another session decrypts without any error to the plaintext XORed with both
  keys; \<open>decrypt\<close> cannot tell a wrong key from the right one.
\<close>

theorem decrypt_with_other_key:
  assumes "latin1 (key c1)" and "latin1 t" and "t \<noteq> []"
  shows "decrypt c2 (JStr (encrypt c1 t)) = JStr (xor_ref (key c2) (xor_ref (key c1) t))"
  using assms by (simp add: encrypt_latin1 decrypt_encoded latin1_xor_ref)

text \<open>
  C14 (equivalence). The index loop of \<open>encrypt\<close> and \<open>decrypt\<close>, run from index 0
  with an empty accumulator, XORs the text with the key repeated cyclically (the key
  concatenated with itself as often as the text is long, paired position by position);
  under the empty key it returns the text unchanged.
\<close>

theorem xor_loop_cyclic_key:
  "xor_loop k t 0 [] =
     (if k = [] then t else map2 (\<lambda>c b. c XOR b) t (concat (replicate (length t) k)))"
proof (cases "k = []")
  case True
  then show ?thesis by (simp add: xor_loop_eq key_code_def map_nth)
next
  case False
  let ?ks = "concat (replicate (length t) k)"
  have len: "length t \<le> length ?ks"
    using False by (simp add: length_concat_replicate Suc_le_eq)
  have nth: "?ks ! j = key_code k j" if "j < length t" for j
  proof -
    have "j < length t * length k"
      using that False by (cases k) auto
    then show ?thesis using False by (simp add: key_code_def nth_concat_replicate)
  qed
  have "xor_ref k t = map2 (\<lambda>c b. c XOR b) t ?ks"
  proof (rule nth_equalityI)
    show "length (xor_ref k t) = length (map2 (\<lambda>c b. c XOR b) t ?ks)"
      using len by simp
    show "xor_ref k t ! j = map2 (\<lambda>c b. c XOR b) t ?ks ! j" if "j < length (xor_ref k t)" for j
      using that len nth [of j] by simp
  qed
  then show ?thesis using False by (simp add: xor_loop_eq xor_ref_def)
qed

text \<open>
  C13 (tampering goes undetected). Every well-formed base64 string of a non-empty byte
  sequence is accepted by \<open>decrypt\<close> and yields the XOR of those bytes with the key:
  an altered ciphertext decrypts to altered plaintext, never to an error.
\<close>

theorem decrypt_accepts_any_ciphertext:
  "latin1 e \<Longrightarrow> e \<noteq> [] \<Longrightarrow>
   decrypt c (JStr (b64_encode (map unat e))) = JStr (xor_loop (key c) e 0 [])"
  by (simp add: decrypt_encoded xor_loop_eq xor_ref_def)

text \<open>
  C20 (bounds). For Latin-1 text under a Latin-1 key the ciphertext has
  \<open>4 * ceil (n / 3)\<close> code units, \<open>n\<close> the length of the text.
\<close>

theorem length_encrypt:
  "latin1 (key c) \<Longrightarrow> latin1 t \<Longrightarrow> length (encrypt c t) = 4 * ((length t + 2) div 3)"
  by (cases "t = []") (simp_all add: encrypt_latin1 length_b64_encode)

text \<open>
  C22 (malformed ciphertext is kept). A string whose non-whitespace part has length
  \<open>1 mod 4\<close> is not base64: \<open>atob\<close> throws and the \<open>catch\<close> of \<open>decrypt\<close>
  returns the input unchanged, so such a value is passed on as if it were plaintext.
\<close>

theorem decrypt_keeps_invalid_ciphertext:
  "length (filter (\<lambda>c. \<not> ascii_whitespace c) s) mod 4 = 1 \<Longrightarrow> decrypt c (JStr s) = JStr s"
  by (auto simp: decrypt_def decrypt_try_def atob_bad_length)

subsection \<open>Witnesses\<close>

text \<open>The letter U+0915 (Devanagari KA) is one code unit, 2325, outside Latin-1.\<close>

theorem encrypt_returns_wide_plaintext_witness:
  "\<not> latin1 [2325] \<and> encrypt (new_crypto 1700000123456) [2325] = [2325]"
proof -
  have h: "\<not> latin1 [2325]" by simp
  show ?thesis using h encrypt_returns_wide_plaintext [OF h, of 1700000123456] by simp
qed

theorem decrypt_with_other_key_witness:
  "latin1 (key \<lparr>key = js_lit ''K''\<rparr>) \<and> latin1 (js_lit ''A'') \<and> js_lit ''A'' \<noteq> [] \<and>
   decrypt \<lparr>key = js_lit ''L''\<rparr> (JStr (encrypt \<lparr>key = js_lit ''K''\<rparr> (js_lit ''A''))) = JStr (js_lit ''F'')"
proof -
  have h: "latin1 (key \<lparr>key = js_lit ''K''\<rparr>)" "latin1 (js_lit ''A'')" "js_lit ''A'' \<noteq> []"
    by (simp_all add: js_eval)
  show ?thesis
    using h decrypt_with_other_key [OF h, of "\<lparr>key = js_lit ''L''\<rparr>"]
    by (simp add: js_eval)
qed

theorem decrypt_accepts_any_ciphertext_witness:
  "latin1 [65] \<and> [65] \<noteq> [] \<and>
   decrypt \<lparr>key = js_lit ''K''\<rparr> (JStr (b64_encode (map unat [65::code_unit]))) = JStr [10]"
proof -
  have h: "latin1 [65]" "[65::code_unit] \<noteq> []" by simp_all
  show ?thesis
    using h decrypt_accepts_any_ciphertext [OF h, of "\<lparr>key = js_lit ''K''\<rparr>"]
    by (simp add: js_eval xor_loop.simps)
qed

theorem decrypt_keeps_invalid_ciphertext_witness:
  "length (filter (\<lambda>c. \<not> ascii_whitespace c) (js_lit ''12345'')) mod 4 = 1 \<and>
   decrypt (new_crypto 1700000123456) (JStr (js_lit ''12345'')) = JStr (js_lit ''12345'')"
proof -
  have h: "length (filter (\<lambda>c. \<not> ascii_whitespace c) (js_lit ''12345'')) mod 4 = 1"
    by (simp add: js_lit_def ascii_whitespace_def)
  show ?thesis using h decrypt_keeps_invalid_ciphertext [OF h] by simp
qed

theorem length_encrypt_witness:
  "latin1 (key (new_crypto 1700000123456)) \<and> latin1 (js_lit ''Acme'') \<and>
   length (encrypt (new_crypto 1700000123456) (js_lit ''Acme'')) = 8"
proof -
  have h: "latin1 (key (new_crypto 1700000123456))" "latin1 (js_lit ''Acme'')"
    by (simp_all add: js_lit_def)
  show ?thesis using h length_encrypt [OF h] by simp
qed

end
