(* ===== verification/Records.thy ===== *)
theory Records
  imports Cipher
begin

text \<open>
  The record transform: \<open>encryptApplicationData\<close> and \<open>decryptApplicationData\<close>
  (src/encryption.js, lines 61--107). An application object is a map from property names
  to values (\<open>app_data\<close>); an absent property reads as \<open>undefined\<close>. The spread copy
  \<open>{...data}\<close> is the map itself (maps are values), the \<open>forEach\<close> over the field list
  is a \<open>foldl\<close> of one field step, and the two stamps are map updates. The lemmas give the
  value of every property after each operation, the full cycle (every truthy sensitive
  field comes back as its string form), that sealing twice double-encrypts, that opening
  never clears \<open>_encrypted\<close> so a second open corrupts, and, as a step relation over
  stored objects, that a sealed object stays marked sealed forever.
\<close>

type_synonym app_data = "string \<rightharpoonup> jsval"

definition prop_value :: "jsval option \<Rightarrow> jsval" where
  "prop_value v = (case v of None \<Rightarrow> JUndefined | Some x \<Rightarrow> x)"

definition get_prop :: "app_data \<Rightarrow> string \<Rightarrow> jsval" where
  "get_prop d f = prop_value (d f)"

subsection \<open>encryptApplicationData\<close>

definition encrypt_sensitive_fields :: "string list" where
  "encrypt_sensitive_fields =
     [''legalName'', ''phoneNumber'', ''email'', ''registeredAddress'',
      ''director1Name'', ''director1Pan'', ''director1Aadhaar'', ''director1Din'', ''director1Address'',
      ''director2Name'', ''director2Pan'', ''director2Aadhaar'', ''director2Din'', ''director2Address'',
      ''annualRevenue'', ''pat'', ''capitalEmployed'', ''loanAmount'', ''purpose'', ''collateral'']"

definition encrypt_field :: "finance_flow_crypto \<Rightarrow> app_data \<Rightarrow> string \<Rightarrow> app_data" where
  "encrypt_field this encrypted_data field =
     (if truthy (get_prop encrypted_data field)
      then encrypted_data(field \<mapsto> JStr (encrypt this (js_to_string (get_prop encrypted_data field))))
      else encrypted_data)"

definition encrypt_application_data :: "finance_flow_crypto \<Rightarrow> app_data \<Rightarrow> app_data" where
  "encrypt_application_data this data =
     (let encrypted_data = foldl (encrypt_field this) data encrypt_sensitive_fields;
          encrypted_data = encrypted_data(''_encrypted'' \<mapsto> JBool True);
          encrypted_data = encrypted_data(''_encryptionVersion'' \<mapsto> JStr (js_lit ''1.0''))
      in encrypted_data)"

subsection \<open>decryptApplicationData\<close>

definition decrypt_sensitive_fields :: "string list" where
  "decrypt_sensitive_fields =
     [''legalName'', ''phoneNumber'', ''email'', ''registeredAddress'',
      ''director1Name'', ''director1Pan'', ''director1Aadhaar'', ''director1Din'', ''director1Address'',
      ''director2Name'', ''director2Pan'', ''director2Aadhaar'', ''director2Din'', ''director2Address'',
      ''annualRevenue'', ''pat'', ''capitalEmployed'', ''loanAmount'', ''purpose'', ''collateral'']"

definition decrypt_field :: "finance_flow_crypto \<Rightarrow> app_data \<Rightarrow> string \<Rightarrow> app_data" where
  "decrypt_field this decrypted_data field =
     (if truthy (get_prop decrypted_data field)
      then decrypted_data(field \<mapsto> decrypt this (get_prop decrypted_data field))
      else decrypted_data)"

definition decrypt_application_data :: "finance_flow_crypto \<Rightarrow> app_data \<Rightarrow> app_data" where
  "decrypt_application_data this data =
     (if \<not> truthy (get_prop data ''_encrypted'') then data
      else let decrypted_data = foldl (decrypt_field this) data decrypt_sensitive_fields
           in decrypted_data)"

declare get_prop_def [js_eval] encrypt_sensitive_fields_def [js_eval] encrypt_field_def [js_eval]
  encrypt_application_data_def [js_eval] decrypt_sensitive_fields_def [js_eval]
  decrypt_field_def [js_eval] decrypt_application_data_def [js_eval]

subsection \<open>The stored object as a state machine\<close>

text \<open>
  Between saves and loads the application edits ordinary fields; the two stamps are
  written only by the transform. A run starts from some object and takes any sequence of
  the three steps.
\<close>

definition marker_field :: "string \<Rightarrow> bool" where
  "marker_field f \<longleftrightarrow> f = ''_encrypted'' \<or> f = ''_encryptionVersion''"

inductive lifecycle :: "finance_flow_crypto \<Rightarrow> app_data \<Rightarrow> app_data \<Rightarrow> bool"
  for c :: finance_flow_crypto where
  start: "lifecycle c d0 d0"
| save: "lifecycle c d0 d \<Longrightarrow> lifecycle c d0 (encrypt_application_data c d)"
| load: "lifecycle c d0 d \<Longrightarrow> lifecycle c d0 (decrypt_application_data c d)"
| edit: "lifecycle c d0 d \<Longrightarrow> \<not> marker_field f \<Longrightarrow> lifecycle c d0 (d(f := v))"

text \<open>
  The specification's view of a record: a phase, changed by the two operations of
  RecordTransform. The abstraction reads the phase from the \<open>_encrypted\<close> stamp.
\<close>

datatype record_phase = PLAINTEXT | CIPHERTEXT

datatype record_op = SealRecord | OpenRecord

fun spec_record_step :: "record_phase \<Rightarrow> record_op \<Rightarrow> record_phase" where
  "spec_record_step _ SealRecord = CIPHERTEXT"
| "spec_record_step _ OpenRecord = PLAINTEXT"

fun apply_record_op :: "finance_flow_crypto \<Rightarrow> record_op \<Rightarrow> app_data \<Rightarrow> app_data" where
  "apply_record_op c SealRecord d = encrypt_application_data c d"
| "apply_record_op c OpenRecord d = decrypt_application_data c d"

definition phase_of :: "app_data \<Rightarrow> record_phase" where
  "phase_of d = (if truthy (get_prop d ''_encrypted'') then CIPHERTEXT else PLAINTEXT)"

text \<open>A session object with a one-character key, used by the witnesses.\<close>

definition demo_crypto :: finance_flow_crypto where
  "demo_crypto = \<lparr>key = js_lit ''K''\<rparr>"

subsection \<open>Property values after each operation\<close>

text \<open>The value a field step leaves in its own field.\<close>

definition sealed_value :: "finance_flow_crypto \<Rightarrow> jsval option \<Rightarrow> jsval option" where
  "sealed_value this v =
     (if truthy (prop_value v) then Some (JStr (encrypt this (js_to_string (prop_value v)))) else v)"

definition opened_value :: "finance_flow_crypto \<Rightarrow> jsval option \<Rightarrow> jsval option" where
  "opened_value this v = (if truthy (prop_value v) then Some (decrypt this (prop_value v)) else v)"

lemma encrypt_field_upd: "encrypt_field this d f = d(f := sealed_value this (d f))"
  by (auto simp: encrypt_field_def sealed_value_def get_prop_def)

lemma decrypt_field_upd: "decrypt_field this d f = d(f := opened_value this (d f))"
  by (auto simp: decrypt_field_def opened_value_def get_prop_def)

lemma distinct_sensitive_fields:
  "distinct encrypt_sensitive_fields" "distinct decrypt_sensitive_fields"
  by (simp_all add: encrypt_sensitive_fields_def decrypt_sensitive_fields_def)

text \<open>The two copies of the field list (lines 63--68 and 91--96) agree.\<close>

lemma sensitive_fields_agree: "decrypt_sensitive_fields = encrypt_sensitive_fields"
  by (simp add: encrypt_sensitive_fields_def decrypt_sensitive_fields_def)

lemma markers_not_sensitive:
  "''_encrypted'' \<notin> set encrypt_sensitive_fields"
  "''_encryptionVersion'' \<notin> set encrypt_sensitive_fields"
  by (simp_all add: encrypt_sensitive_fields_def)

lemma encrypt_application_data_at:
  "encrypt_application_data this data x =
     (if x = ''_encryptionVersion'' then Some (JStr (js_lit ''1.0''))
      else if x = ''_encrypted'' then Some (JBool True)
      else if x \<in> set encrypt_sensitive_fields then sealed_value this (data x)
      else data x)"
  using foldl_field_update [OF distinct_sensitive_fields(1), of "sealed_value this" data x]
  by (simp add: encrypt_application_data_def encrypt_field_upd [abs_def])

lemma decrypt_application_data_at:
  "decrypt_application_data this data x =
     (if truthy (get_prop data ''_encrypted'') \<and> x \<in> set encrypt_sensitive_fields
      then opened_value this (data x) else data x)"
  using foldl_field_update [OF distinct_sensitive_fields(2), of "opened_value this" data x]
  by (simp add: decrypt_application_data_def decrypt_field_upd [abs_def] sensitive_fields_agree)

subsection \<open>Field values through a cycle\<close>

lemma js_to_string_nonempty: "truthy v \<Longrightarrow> js_to_string v \<noteq> []"
  by (cases v) (simp_all add: js_lit_def js_number_to_string_def js_radix_string_def
      radix_digits_nonempty)

lemma encrypt_nonempty: "t \<noteq> [] \<Longrightarrow> encrypt c t \<noteq> []"
  by (auto simp: encrypt_def encrypt_try_def btoa_def xor_loop_eq Let_def split: sum.split if_splits)

lemma opened_sealed_value:
  assumes "latin1 (key c)"
  shows "opened_value c (sealed_value c v) =
           (if truthy (prop_value v) then Some (JStr (js_to_string (prop_value v))) else v)"
  using assms js_to_string_nonempty [of "prop_value v"]
  by (simp add: sealed_value_def opened_value_def prop_value_def decrypt_encrypt encrypt_nonempty)

lemma encrypted_flag [simp]:
  "get_prop (encrypt_application_data c data) ''_encrypted'' = JBool True"
  by (simp add: get_prop_def prop_value_def encrypt_application_data_at)

lemma decrypt_application_data_flag:
  "decrypt_application_data c data ''_encrypted'' = data ''_encrypted''"
  by (simp add: decrypt_application_data_at markers_not_sensitive)

lemma length_encrypt_grows:
  assumes "latin1 (key c)" and "latin1 t" and "t \<noteq> []"
  shows "length t < length (encrypt c t)"
proof -
  have "length t \<le> 3 * ((length t + 2) div 3)" by linarith
  moreover have "3 \<le> length t + 2" using assms(3) by (cases t) auto
  then have "0 < (length t + 2) div 3" by (simp add: div_greater_zero_iff)
  ultimately have "length t < 4 * ((length t + 2) div 3)" by linarith
  with assms show ?thesis by (simp add: encrypt_latin1 length_b64_encode)
qed

lemma latin1_encrypt: "latin1 (key c) \<Longrightarrow> latin1 t \<Longrightarrow> latin1 (encrypt c t)"
  by (cases "t = []") (simp_all add: encrypt_latin1 latin1_b64_encode)

subsection \<open>Runs of the stored object\<close>

lemma lifecycle_keeps_flag:
  "lifecycle c d0 d \<Longrightarrow> d0 ''_encrypted'' = Some (JBool True) \<Longrightarrow> d ''_encrypted'' = Some (JBool True)"
proof (induction rule: lifecycle.induct)
  case (save d0 d)
  then show ?case by (simp add: encrypt_application_data_at)
next
  case (load d0 d)
  then show ?case by (simp add: decrypt_application_data_flag)
next
  case (edit d0 d f v)
  then show ?case by (auto simp: marker_field_def)
qed simp

subsection \<open>Properties\<close>

text \<open>
  C3 (full cycle). Sealing then opening with the same session object returns the object
  with both stamps set and every truthy sensitive field replaced by its string form
  (a number such as \<open>loanAmount = 500000\<close> comes back as the string \<open>'500000'\<close>);
  every other property is unchanged.
\<close>

theorem decrypt_encrypt_application_data:
  "decrypt_application_data (new_crypto now) (encrypt_application_data (new_crypto now) data) =
     (\<lambda>x. if x \<in> set encrypt_sensitive_fields \<and> truthy (get_prop data x)
          then Some (JStr (js_to_string (get_prop data x))) else data x)
     (''_encrypted'' \<mapsto> JBool True, ''_encryptionVersion'' \<mapsto> JStr (js_lit ''1.0''))"
proof
  fix x
  show "decrypt_application_data (new_crypto now) (encrypt_application_data (new_crypto now) data) x =
     ((\<lambda>x. if x \<in> set encrypt_sensitive_fields \<and> truthy (get_prop data x)
          then Some (JStr (js_to_string (get_prop data x))) else data x)
     (''_encrypted'' \<mapsto> JBool True, ''_encryptionVersion'' \<mapsto> JStr (js_lit ''1.0''))) x"
    using markers_not_sensitive
    by (auto simp: decrypt_application_data_at encrypt_application_data_at opened_sealed_value
        get_prop_def prop_value_def)
qed

text \<open>
  C6 (sealing is not idempotent). \<open>encryptApplicationData\<close> has no guard on
  \<open>_encrypted\<close>: applied to an already sealed object it encrypts every truthy sensitive
  field a second time, so the result differs from the once-sealed object.
\<close>

theorem encrypt_application_data_twice:
  assumes "latin1 (key c)" and "x \<in> set encrypt_sensitive_fields"
    and "truthy (get_prop data x)" and "latin1 (js_to_string (get_prop data x))"
  shows "encrypt_application_data c (encrypt_application_data c data) \<noteq> encrypt_application_data c data"
proof
  let ?t = "js_to_string (get_prop data x)"
  assume eq: "encrypt_application_data c (encrypt_application_data c data) = encrypt_application_data c data"
  have x: "x \<noteq> ''_encrypted''" "x \<noteq> ''_encryptionVersion''"
    using assms(2) markers_not_sensitive by auto
  have t: "?t \<noteq> []" using assms(3) by (rule js_to_string_nonempty)
  have once: "encrypt_application_data c data x = Some (JStr (encrypt c ?t))"
    using assms(2,3) x by (simp add: encrypt_application_data_at sealed_value_def get_prop_def)
  have "encrypt c ?t \<noteq> []" using t by (rule encrypt_nonempty)
  then have twice: "encrypt_application_data c (encrypt_application_data c data) x =
      Some (JStr (encrypt c (encrypt c ?t)))"
    using assms(2) x once by (simp add: encrypt_application_data_at sealed_value_def prop_value_def)
  have "length (encrypt c ?t) < length (encrypt c (encrypt c ?t))"
    using assms(1,4) t
    by (intro length_encrypt_grows latin1_encrypt encrypt_nonempty) simp_all
  with once twice eq show False by simp
qed

text \<open>
  C7 (opening is not idempotent). \<open>decryptApplicationData\<close> never clears
  \<open>_encrypted\<close>, so a second call decrypts the plaintext again: a field whose plaintext
  is non-empty valid base64 (for example \<open>'abcd'\<close>) is changed by the second call.
\<close>

theorem decrypt_application_data_twice:
  assumes "truthy (get_prop data ''_encrypted'')" and "x \<in> set encrypt_sensitive_fields"
    and "decrypt_application_data c data x = Some (JStr p)" and "p \<noteq> []" and "atob p = Inr b"
  shows "decrypt_application_data c (decrypt_application_data c data) x \<noteq> Some (JStr p)"
proof -
  have flag: "truthy (get_prop (decrypt_application_data c data) ''_encrypted'')"
    using assms(1) by (simp add: get_prop_def decrypt_application_data_flag)
  have "decrypt_application_data c (decrypt_application_data c data) x =
      Some (JStr (xor_loop (key c) b 0 []))"
    using flag assms(2-5)
    by (simp add: decrypt_application_data_at opened_value_def prop_value_def decrypt_def
        decrypt_try_def)
  moreover have "length (xor_loop (key c) b 0 []) < length p"
    using atob_shrinks [OF assms(5,4)] by (simp add: xor_loop_eq)
  ultimately show ?thesis by auto
qed

text \<open>
  C5 (the seal marks plaintext). A sensitive field holding text outside Latin-1 is
  stored in clear while the object is stamped \<open>_encrypted = true\<close>: the state the
  specification forbids (marked encrypted, field still plaintext) is produced.
\<close>

theorem encrypt_application_data_marks_plaintext:
  assumes "latin1 (key c)" and "x \<in> set encrypt_sensitive_fields"
    and "data x = Some (JStr s)" and "\<not> latin1 s"
  shows "encrypt_application_data c data x = Some (JStr s) \<and>
         encrypt_application_data c data ''_encrypted'' = Some (JBool True)"
proof -
  have "s \<noteq> []" using assms(4) by auto
  with assms show ?thesis
    using markers_not_sensitive
    by (auto simp: encrypt_application_data_at sealed_value_def prop_value_def encrypt_wide)
qed

text \<open>
  C8 (no way back to the plaintext state). In every run that starts from a sealed
  object, through any saves, loads and edits, \<open>_encrypted\<close> stays \<open>true\<close>: the
  transition CIPHERTEXT to PLAINTEXT of the specification does not exist in the code.
\<close>

theorem lifecycle_sealed_forever:
  "lifecycle c (encrypt_application_data c d0) d \<Longrightarrow> d ''_encrypted'' = Some (JBool True)"
  by (erule lifecycle_keeps_flag) (simp add: encrypt_application_data_at)

text \<open>
  C19 (frame). \<open>encryptApplicationData\<close> leaves every property other than the twenty
  sensitive fields and the two stamps exactly as it was.
\<close>

theorem encrypt_application_data_frame:
  "x \<notin> set encrypt_sensitive_fields \<Longrightarrow> \<not> marker_field x \<Longrightarrow>
   encrypt_application_data c data x = data x"
  by (simp add: encrypt_application_data_at marker_field_def)

text \<open>
  C9 (refinement, and where it fails). Under the abstraction \<open>phase_of\<close>, a step
  of the code moves the phase as the specification's state machine does exactly when it
  seals a record or opens a plaintext one: opening a sealed record, the one transition
  that should lead back to PLAINTEXT, departs from it. Opening a plaintext record is
  guarded by \<open>_encrypted\<close> and leaves the record itself unchanged.
\<close>

theorem record_ops_refine_spec:
  "(phase_of (apply_record_op c op d) = spec_record_step (phase_of d) op \<longleftrightarrow>
      op = SealRecord \<or> phase_of d = PLAINTEXT) \<and>
   (phase_of d = PLAINTEXT \<longrightarrow> apply_record_op c OpenRecord d = d)"
proof (cases op)
  case SealRecord
  then show ?thesis by (simp add: phase_of_def decrypt_application_data_def)
next
  case OpenRecord
  have "get_prop (decrypt_application_data c d) ''_encrypted'' = get_prop d ''_encrypted''"
    by (simp add: get_prop_def decrypt_application_data_flag)
  with OpenRecord show ?thesis
    by (simp add: phase_of_def decrypt_application_data_def)
qed

text \<open>
  C4 (the specification's scenario). The record \<open>{legalName: 'Acme Pvt Ltd',
  phoneNumber: '9999999999', _encrypted: false}\<close> sealed by a session object gets
  \<open>_encrypted = true\<close> and both fields replaced by different strings; opened by the same
  object it comes back with its fields restored but still stamped \<open>_encrypted = true\<close>
  (the specification expects \<open>false\<close>).
\<close>

theorem spec_scenario_seal_open:
  "let r = [''legalName'' \<mapsto> JStr (js_lit ''Acme Pvt Ltd''),
            ''phoneNumber'' \<mapsto> JStr (js_lit ''9999999999''), ''_encrypted'' \<mapsto> JBool False];
       c = new_crypto 1700000123456;
       sealed = encrypt_application_data c r
   in get_prop sealed ''_encrypted'' = JBool True \<and>
      sealed ''legalName'' \<noteq> r ''legalName'' \<and> sealed ''phoneNumber'' \<noteq> r ''phoneNumber'' \<and>
      decrypt_application_data c sealed =
        r(''_encrypted'' \<mapsto> JBool True, ''_encryptionVersion'' \<mapsto> JStr (js_lit ''1.0''))"
proof -
  let ?c = "new_crypto 1700000123456"
  let ?a = "js_lit ''Acme Pvt Ltd''" and ?p = "js_lit ''9999999999''"
  let ?r = "[''legalName'' \<mapsto> JStr ?a, ''phoneNumber'' \<mapsto> JStr ?p, ''_encrypted'' \<mapsto> JBool False]"
  have l: "latin1 ?a" "latin1 ?p" "?a \<noteq> []" "?p \<noteq> []" by (simp_all add: js_lit_def)
  have k: "latin1 (key ?c)" by simp
  have ga: "length ?a < length (encrypt ?c ?a)"
    by (rule length_encrypt_grows [OF k l(1) l(3)])
  have gp: "length ?p < length (encrypt ?c ?p)"
    by (rule length_encrypt_grows [OF k l(2) l(4)])
  have sa: "encrypt_application_data ?c ?r ''legalName'' = Some (JStr (encrypt ?c ?a))"
    and sp: "encrypt_application_data ?c ?r ''phoneNumber'' = Some (JStr (encrypt ?c ?p))"
    using l by (simp_all add: encrypt_application_data_at sealed_value_def prop_value_def
        encrypt_sensitive_fields_def)
  have opened: "decrypt_application_data ?c (encrypt_application_data ?c ?r) x =
      (?r(''_encrypted'' \<mapsto> JBool True, ''_encryptionVersion'' \<mapsto> JStr (js_lit ''1.0''))) x" for x
    using markers_not_sensitive opened_sealed_value [OF k]
    by (auto simp: decrypt_application_data_at encrypt_application_data_at get_prop_def
        prop_value_def)
  show ?thesis
    using ga gp sa sp opened by (auto simp: Let_def)
qed

subsection \<open>Witnesses\<close>

theorem record_ops_refine_spec_witness:
  "phase_of [''legalName'' \<mapsto> JStr (js_lit ''QUJD'')] = PLAINTEXT \<and>
   apply_record_op demo_crypto OpenRecord [''legalName'' \<mapsto> JStr (js_lit ''QUJD'')] =
     [''legalName'' \<mapsto> JStr (js_lit ''QUJD'')] \<and>
   phase_of (apply_record_op demo_crypto OpenRecord
       ([''legalName'' \<mapsto> JStr (js_lit ''QUJD'')](''_encrypted'' \<mapsto> JBool True))) \<noteq>
     spec_record_step CIPHERTEXT OpenRecord"
proof -
  let ?d = "[''legalName'' \<mapsto> JStr (js_lit ''QUJD'')]"
  have p: "phase_of ?d = PLAINTEXT" by (simp add: phase_of_def get_prop_def prop_value_def)
  have s: "phase_of (?d(''_encrypted'' \<mapsto> JBool True)) = CIPHERTEXT"
    by (simp add: phase_of_def get_prop_def prop_value_def)
  show ?thesis
    using p s record_ops_refine_spec [of demo_crypto OpenRecord ?d]
      record_ops_refine_spec [of demo_crypto OpenRecord "?d(''_encrypted'' \<mapsto> JBool True)"]
    by simp
qed

lemma latin1_demo_key: "latin1 (key demo_crypto)"
  by (simp add: demo_crypto_def js_lit_def)

theorem encrypt_application_data_twice_witness:
  "latin1 (key demo_crypto) \<and> ''legalName'' \<in> set encrypt_sensitive_fields \<and>
   truthy (get_prop [''legalName'' \<mapsto> JStr (js_lit ''Acme'')] ''legalName'') \<and>
   latin1 (js_to_string (get_prop [''legalName'' \<mapsto> JStr (js_lit ''Acme'')] ''legalName'')) \<and>
   encrypt_application_data demo_crypto
     (encrypt_application_data demo_crypto [''legalName'' \<mapsto> JStr (js_lit ''Acme'')])
   \<noteq> encrypt_application_data demo_crypto [''legalName'' \<mapsto> JStr (js_lit ''Acme'')]"
proof -
  have h: "latin1 (key demo_crypto)" "''legalName'' \<in> set encrypt_sensitive_fields"
    "truthy (get_prop [''legalName'' \<mapsto> JStr (js_lit ''Acme'')] ''legalName'')"
    "latin1 (js_to_string (get_prop [''legalName'' \<mapsto> JStr (js_lit ''Acme'')] ''legalName''))"
    by (simp_all add: latin1_demo_key encrypt_sensitive_fields_def get_prop_def prop_value_def
        js_lit_def)
  show ?thesis using h encrypt_application_data_twice [OF h] by simp
qed

theorem decrypt_application_data_twice_witness:
  "truthy (get_prop [''_encrypted'' \<mapsto> JBool True,
      ''legalName'' \<mapsto> JStr (encrypt demo_crypto (js_lit ''abcd''))] ''_encrypted'') \<and>
   ''legalName'' \<in> set encrypt_sensitive_fields \<and>
   decrypt_application_data demo_crypto [''_encrypted'' \<mapsto> JBool True,
      ''legalName'' \<mapsto> JStr (encrypt demo_crypto (js_lit ''abcd''))] ''legalName''
     = Some (JStr (js_lit ''abcd'')) \<and>
   js_lit ''abcd'' \<noteq> [] \<and> atob (js_lit ''abcd'') = Inr [105, 183, 29] \<and>
   decrypt_application_data demo_crypto (decrypt_application_data demo_crypto
     [''_encrypted'' \<mapsto> JBool True, ''legalName'' \<mapsto> JStr (encrypt demo_crypto (js_lit ''abcd''))])
     ''legalName'' \<noteq> Some (JStr (js_lit ''abcd''))"
proof -
  let ?d = "[''_encrypted'' \<mapsto> JBool True, ''legalName'' \<mapsto> JStr (encrypt demo_crypto (js_lit ''abcd''))]"
  have ne: "encrypt demo_crypto (js_lit ''abcd'') \<noteq> []"
    by (rule encrypt_nonempty) (simp add: js_lit_def)
  have h: "truthy (get_prop ?d ''_encrypted'')" "''legalName'' \<in> set encrypt_sensitive_fields"
    "decrypt_application_data demo_crypto ?d ''legalName'' = Some (JStr (js_lit ''abcd''))"
    "js_lit ''abcd'' \<noteq> []"
    using ne latin1_demo_key
    by (simp_all add: get_prop_def prop_value_def encrypt_sensitive_fields_def
        decrypt_application_data_at opened_value_def decrypt_encrypt)
  have a: "atob (js_lit ''abcd'') = Inr [105, 183, 29]"
    by (simp add: js_eval)
  note h = h a
  show ?thesis using h decrypt_application_data_twice [OF h] by simp
qed

theorem encrypt_application_data_marks_plaintext_witness:
  "latin1 (key demo_crypto) \<and> ''legalName'' \<in> set encrypt_sensitive_fields \<and>
   [''legalName'' \<mapsto> JStr [2325]] ''legalName'' = Some (JStr [2325]) \<and> \<not> latin1 [2325] \<and>
   encrypt_application_data demo_crypto [''legalName'' \<mapsto> JStr [2325]] ''legalName'' = Some (JStr [2325]) \<and>
   encrypt_application_data demo_crypto [''legalName'' \<mapsto> JStr [2325]] ''_encrypted'' = Some (JBool True)"
proof -
  have h: "latin1 (key demo_crypto)" "''legalName'' \<in> set encrypt_sensitive_fields"
    "[''legalName'' \<mapsto> JStr [2325]] ''legalName'' = Some (JStr [2325])" "\<not> latin1 [2325]"
    by (simp_all add: latin1_demo_key encrypt_sensitive_fields_def)
  show ?thesis
    using h encrypt_application_data_marks_plaintext
      [of demo_crypto "''legalName''" "[''legalName'' \<mapsto> JStr [2325]]" "[2325]", OF h]
    by simp
qed

theorem lifecycle_sealed_forever_witness:
  "lifecycle demo_crypto (encrypt_application_data demo_crypto Map.empty)
     (decrypt_application_data demo_crypto (encrypt_application_data demo_crypto Map.empty)) \<and>
   decrypt_application_data demo_crypto (encrypt_application_data demo_crypto Map.empty) ''_encrypted''
     = Some (JBool True)"
proof -
  have h: "lifecycle demo_crypto (encrypt_application_data demo_crypto Map.empty)
     (decrypt_application_data demo_crypto (encrypt_application_data demo_crypto Map.empty))"
    by (rule lifecycle.load [OF lifecycle.start])
  show ?thesis using h lifecycle_sealed_forever [OF h] by simp
qed

theorem encrypt_application_data_frame_witness:
  "''companyType'' \<notin> set encrypt_sensitive_fields \<and> \<not> marker_field ''companyType'' \<and>
   encrypt_application_data demo_crypto [''companyType'' \<mapsto> JStr (js_lit ''LLP'')] ''companyType''
     = Some (JStr (js_lit ''LLP''))"
proof -
  have h: "''companyType'' \<notin> set encrypt_sensitive_fields" "\<not> marker_field ''companyType''"
    by (simp_all add: encrypt_sensitive_fields_def marker_field_def)
  show ?thesis
    using h encrypt_application_data_frame [OF h, of demo_crypto "[''companyType'' \<mapsto> JStr (js_lit ''LLP'')]"]
    by simp
qed

end
