(* ===== verification/Hash.thy ===== *)
theory Hash
  imports JsValue
begin

text \<open>
  \<open>generateHash\<close> (src/encryption.js, lines 110--121): a rolling hash over the code
  units of a string, \<open>hash = ((hash << 5) - hash) + char\<close> truncated to a signed 32-bit
  integer by \<open>hash & hash\<close>, printed as \<open>Math.abs(hash).toString(36)\<close>. The loop is
  \<open>hash_loop\<close>, over JavaScript numbers (integers) with the operators of
  \<open>JsValue\<close>. The reference \<open>hash_word\<close> is the same recurrence on \<open>32 word\<close>,
  \<open>h * 31 + c\<close> with wrap-around; the lemmas show the loop computes its signed reading,
  bound the printed hash to one to six base-36 digits that read back to the absolute
  value, and show that opposite 32-bit hashes print the same.
\<close>

function hash_loop :: "jsstr \<Rightarrow> nat \<Rightarrow> int \<Rightarrow> int" where
  "hash_loop text i hash =
     (if i < length text
      then (let char = uint (text ! i);
                hash = (js_shl hash 5 - hash) + char;
                hash = js_and hash hash
            in hash_loop text (Suc i) hash)
      else hash)"
  by pat_completeness auto
termination
  by (relation "measure (\<lambda>(text, i, hash). length text - i)") auto

declare hash_loop.simps [simp del]

definition generate_hash :: "jsstr \<Rightarrow> jsval" where
  "generate_hash text =
     (let hash = 0
      in if length text = 0 then JNum hash
         else JStr (js_radix_string 36 (nat \<bar>hash_loop text 0 hash\<bar>)))"

text \<open>The reference: the recurrence on 32-bit words.\<close>

definition hash_word :: "jsstr \<Rightarrow> 32 word" where
  "hash_word text = foldl (\<lambda>h c. h * 31 + ucast c) 0 text"

declare generate_hash_def [js_eval] hash_word_def [js_eval]

subsection \<open>The loop computes the word recurrence\<close>

lemma hash_step_word:
  "(word_of_int (js_and (js_shl h 5 - h + uint c) (js_shl h 5 - h + uint c)) :: 32 word) =
   word_of_int h * 31 + ucast c"
proof -
  have "(word_of_int (uint c) :: 32 word) = ucast c" by (simp only: ucast_eq)
  then show ?thesis by (simp add: algebra_simps)
qed

lemma hash_loop_word:
  "hash_loop s i h =
     (if i < length s
      then sint (foldl (\<lambda>w c. w * 31 + ucast c) (word_of_int h :: 32 word) (drop i s))
      else h)"
proof (induction s i h rule: hash_loop.induct)
  case (1 s i h)
  show ?case
  proof (cases "i < length s")
    case True
    let ?h' = "js_and (js_shl h 5 - h + uint (s ! i)) (js_shl h 5 - h + uint (s ! i))"
    have drop: "drop i s = s ! i # drop (Suc i) s"
      using True by (simp add: Cons_nth_drop_Suc)
    have "hash_loop s i h = hash_loop s (Suc i) ?h'"
      using True by (simp add: hash_loop.simps [of s i h] Let_def)
    also have "\<dots> = (if Suc i < length s
        then sint (foldl (\<lambda>w c. w * 31 + ucast c) (word_of_int ?h' :: 32 word) (drop (Suc i) s))
        else ?h')"
      by (rule "1.IH" [OF True refl refl refl])
    also have "\<dots> = sint (foldl (\<lambda>w c. w * 31 + ucast c) (word_of_int h :: 32 word) (drop i s))"
    proof -
      have step: "(word_of_int ?h' :: 32 word) = word_of_int h * 31 + ucast (s ! i)"
        by (rule hash_step_word)
      have range: "sint (word_of_int ?h' :: 32 word) = ?h'"
        by (rule js_and_in_range)
      show ?thesis
      proof (cases "Suc i < length s")
        case True
        then show ?thesis by (simp only: if_True step drop foldl_Cons)
      next
        case False
        then have "drop (Suc i) s = []" by simp
        moreover have "?h' = sint (word_of_int h * 31 + ucast (s ! i) :: 32 word)"
          using range by (simp only: step)
        ultimately show ?thesis
          using False by (simp only: if_False drop foldl_Cons foldl_Nil)

      qed
    qed
    finally show ?thesis using True by simp
  next
    case False
    then show ?thesis by (simp add: hash_loop.simps [of s i h])
  qed
qed

lemma generate_hash_word:
  "s \<noteq> [] \<Longrightarrow> generate_hash s = JStr (js_radix_string 36 (nat \<bar>sint (hash_word s)\<bar>))"
  by (simp add: generate_hash_def hash_loop_word hash_word_def)

lemma abs_sint_32_bound: "nat \<bar>sint (w :: 32 word)\<bar> < 36 ^ 6"
proof -
  have "- (2 ^ 31) \<le> sint w" "sint w < 2 ^ 31"
    using sint_ge [of w] sint_lt [of w] by simp_all
  then have "\<bar>sint w\<bar> \<le> 2 ^ 31" by linarith
  then show ?thesis by (simp add: nat_less_iff)
qed

lemma digit_chars_base36:
  "list_all (\<lambda>c. 48 \<le> unat c \<and> unat c \<le> 57 \<or> 97 \<le> unat c \<and> unat c \<le> 122)
     (js_radix_string 36 n)"
  using radix_digits_bound [of 36 _ n]
  by (fastforce simp: list_all_iff js_radix_string_def unat_digit_char)

subsection \<open>Properties\<close>

text \<open>
  C15 (equivalence). The loop of \<open>generateHash\<close>, with its shifts, subtraction and
  \<open>hash & hash\<close> on JavaScript numbers, computes the signed reading of the 32-bit word
  recurrence \<open>h * 31 + c\<close> (the recurrence of Java's \<open>String.hashCode\<close>).
\<close>

theorem hash_loop_is_hash_word: "hash_loop s 0 0 = sint (hash_word s)"
  by (simp add: hash_loop_word hash_word_def)

text \<open>
  C16 (bounds). The hash of a non-empty string is a string of one to six characters, each
  a digit or a lower-case letter.
\<close>

theorem generate_hash_bounds:
  assumes "s \<noteq> []"
  shows "\<exists>d. generate_hash s = JStr d \<and> 1 \<le> length d \<and> length d \<le> 6 \<and>
           list_all (\<lambda>c. 48 \<le> unat c \<and> unat c \<le> 57 \<or> 97 \<le> unat c \<and> unat c \<le> 122) d"
proof -
  let ?n = "nat \<bar>sint (hash_word s)\<bar>"
  have "length (radix_digits 36 ?n) \<le> 6"
    using abs_sint_32_bound [of "hash_word s"] by (intro length_radix_digits_le) simp_all
  moreover have "radix_digits 36 ?n \<noteq> []" by (rule radix_digits_nonempty)
  ultimately show ?thesis
    using assms digit_chars_base36 [of ?n]
    by (simp add: generate_hash_word js_radix_string_def Suc_le_eq)
qed

text \<open>
  C17 (round trip). Reading the printed hash back in base 36 gives the absolute value of
  the 32-bit hash.
\<close>

theorem generate_hash_reads_back:
  "generate_hash s = JStr d \<Longrightarrow> radix_value 36 (map digit_value d) = nat \<bar>sint (hash_word s)\<bar>"
proof (cases "s = []")
  case True
  then show "generate_hash s = JStr d \<Longrightarrow> ?thesis" by (simp add: generate_hash_def)
next
  case False
  then show "generate_hash s = JStr d \<Longrightarrow> ?thesis"
    using js_radix_string_value [of 36 "nat \<bar>sint (hash_word s)\<bar>"]
    by (auto simp: generate_hash_word)
qed

text \<open>
  C18 (collisions from the absolute value). Two non-empty strings whose 32-bit hashes are
  opposite print the same hash.
\<close>

theorem generate_hash_opposite_collide:
  "s1 \<noteq> [] \<Longrightarrow> s2 \<noteq> [] \<Longrightarrow> sint (hash_word s2) = - sint (hash_word s1) \<Longrightarrow>
   generate_hash s1 = generate_hash s2"
  by (simp add: generate_hash_word)

subsection \<open>Witnesses\<close>

theorem generate_hash_bounds_witness:
  "js_lit ''Acme'' \<noteq> [] \<and>
   (\<exists>d. generate_hash (js_lit ''Acme'') = JStr d \<and> 1 \<le> length d \<and> length d \<le> 6 \<and>
      list_all (\<lambda>c. 48 \<le> unat c \<and> unat c \<le> 57 \<or> 97 \<le> unat c \<and> unat c \<le> 122) d)"
proof -
  have h: "js_lit ''Acme'' \<noteq> []" by simp
  show ?thesis using h generate_hash_bounds [OF h] by blast
qed

theorem generate_hash_reads_back_witness:
  "generate_hash [1] = JStr [49] \<and>
   radix_value 36 (map digit_value [49]) = nat \<bar>sint (hash_word [1])\<bar>"
proof -
  have h: "generate_hash [1] = JStr [49]"
    by (simp add: generate_hash_word hash_word_def js_radix_string_def radix_digits_small
        digit_char_def)
  show ?thesis using h generate_hash_reads_back [OF h] by simp
qed

theorem generate_hash_opposite_collide_witness:
  "[1::code_unit] \<noteq> [] \<and> [4650, 19, 29, 24, 3::code_unit] \<noteq> [] \<and>
   sint (hash_word [4650, 19, 29, 24, 3]) = - sint (hash_word [1]) \<and>
   generate_hash [1] = generate_hash [4650, 19, 29, 24, 3]"
proof -
  have h: "[1::code_unit] \<noteq> []" "[4650, 19, 29, 24, 3::code_unit] \<noteq> []"
    "sint (hash_word [4650, 19, 29, 24, 3]) = - sint (hash_word [1])"
    by (simp_all add: hash_word_def)
  show ?thesis using h generate_hash_opposite_collide [OF h] by simp
qed

end
