(* ===== verification/Spec2Isabelle.thy ===== *)
theory Spec2Isabelle
  imports Records Hash
begin

text \<open>
  \<^bold>\<open>A verification library for src/encryption.js of LoanApp.\<close>

  \<^bold>\<open>The program.\<close> One class, \<open>FinanceFlowCrypto\<close>, exported on \<open>window\<close>. Its
  constructor stores a key derived from a fixed seed and the last six digits of
  \<open>Date.now()\<close> (\<open>generateEncryptionKey\<close>). \<open>encrypt\<close> XORs the UTF-16 code units of
  a text with the key, repeated cyclically, and encodes the result with \<open>btoa\<close>;
  \<open>decrypt\<close> decodes with \<open>atob\<close> and XORs again. Both catch every exception and
  return their input unchanged. \<open>encryptApplicationData\<close> and
  \<open>decryptApplicationData\<close> apply them to twenty fixed fields of a loan-application
  object before it is stored and after it is read; the first also stamps the object with
  \<open>_encrypted = true\<close> and \<open>_encryptionVersion = '1.0'\<close>, the second acts only on a
  stamped object. \<open>generateHash\<close> is a 32-bit rolling hash printed in base 36. The
  components interact by calls only: the record transform calls \<open>encrypt\<close>/\<open>decrypt\<close>
  on each field, and those read the one piece of state, \<open>this.key\<close>.

  \<^bold>\<open>Theories and correspondence\<close> (each theory opens with its own summary).
  \<^item> \<open>Prelude\<close>: the types (\<open>jsstr\<close>, a list of 16-bit words, is a JavaScript string;
    \<open>latin1\<close> says every code unit is below 256), the collections \<open>js_eval\<close> (the
    definitions a witness unfolds) and \<open>latin1_simps\<close>, and shared lemmas on words, maps
    updated field by field, and Latin-1 strings.
  \<^item> \<open>JsValue\<close>: the language semantics the code relies on (\<open>jsval\<close> and
    \<open>truthy\<close>, \<open>js_to_string\<close>, \<open>js_radix_string\<close> for \<open>toString(radix)\<close>,
    \<open>js_slice\<close>, \<open>to_int32\<close>, \<open>js_shl\<close>, \<open>js_and\<close>), from the ECMAScript
    specification, with the digit lemmas (value, injectivity, length bounds) and the
    agreement of \<open>ToInt32\<close> with \<open>sint\<close> on \<open>32 word\<close>.
  \<^item> \<open>Base64\<close>: \<open>btoa\<close> and \<open>atob\<close> from the HTML standard (forgiving-base64), with
    the round trip on Latin-1 strings, the rejection of wider code units, and the bound on
    the decoded length.
  \<^item> \<open>Key\<close>: the object state \<open>finance_flow_crypto\<close> (the field \<open>key\<close>), the
    constructor \<open>new_crypto now\<close> and \<open>generate_encryption_key now\<close> (lines 4--14);
    the clock reading \<open>now\<close> is a parameter.
  \<^item> \<open>Cipher\<close>: \<open>encrypt\<close> and \<open>decrypt\<close> (lines 16--59), each split into its
    \<open>try\<close> block (\<open>encrypt_try\<close>, \<open>decrypt_try\<close>, with results in
    \<open>dom_exception + jsstr\<close>) and the \<open>catch\<close> fallback. The loop is \<open>xor_loop\<close>,
    a \<open>function\<close> over the index terminating by the measure \<open>length text - i\<close>;
    \<open>key_code\<close> is \<open>key.charCodeAt(i % key.length)\<close>.
  \<^item> \<open>Records\<close>: \<open>encrypt_application_data\<close> and \<open>decrypt_application_data\<close>
    (lines 61--107) on objects modelled as maps \<open>string \<rightharpoonup> jsval\<close>, the
    \<open>forEach\<close> as a \<open>foldl\<close> of \<open>encrypt_field\<close>/\<open>decrypt_field\<close> over the two
    copies of the field list; \<open>lifecycle\<close>, an inductive step relation of a stored
    object under saves, loads and edits of ordinary fields; and the specification's
    two-phase machine (\<open>record_phase\<close>, \<open>spec_record_step\<close>) with the dispatcher
    \<open>apply_record_op\<close> of the two transforms.
  \<^item> \<open>Hash\<close>: \<open>generate_hash\<close> and its loop \<open>hash_loop\<close> (lines 110--121), over
    JavaScript integers, against the reference \<open>hash_word\<close> on \<open>32 word\<close>.
  \<^item> This theory: properties spanning the key derivation and the cipher.

  \<^bold>\<open>What is proved\<close> (claims C1--C22, each stated after a text naming it).
  Round trips: the cipher for every string under a session key (C1); the record cycle,
  which returns every truthy sensitive field as its string form (C3), and the concrete
  scenario of the specification, a record sealed and opened by one session object (C4);
  the printed hash read back in base 36 (C17). Error paths and safety: text outside
  Latin-1 is returned by \<open>encrypt\<close> as plaintext (C2) and stored in clear under
  \<open>_encrypted = true\<close> (C5); a malformed ciphertext is returned by \<open>decrypt\<close>
  as it is (C22); \<open>decrypt\<close> has no integrity check (C10, C13); the key is the seed
  and the six last decimal digits of the clock (C21), so it repeats every 1000 seconds
  (C12) and differs between sessions, and cross-session decryption silently corrupts
  (C11). Record transform: sealing twice double-encrypts (C6); opening never clears the
  stamp, so opening twice corrupts (C7) and no run returns to the plaintext state (C8,
  by rule induction on \<open>lifecycle\<close>); against the two-phase specification machine
  (PLAINTEXT, CIPHERTEXT) under the abstraction \<open>phase_of\<close>, a step agrees exactly
  when it seals a record or opens a plaintext one, the latter leaving the record
  unchanged (C9); the frame of the transform (C19). Equivalences: the XOR loop against
  the text XORed with the key repeated cyclically (C14) and the hash loop against the
  32-bit word recurrence (C15). Bounds: ciphertext length (C20), hash length and
  alphabet (C16); opposite 32-bit hashes print alike (C18).

  \<^bold>\<open>Bounds and termination.\<close> No fuel is needed: both loops are index loops bounded
  by the input length and are \<open>function\<close>s with a measure; every other recursion is
  structural. Timestamps are assumed to have at least six digits (\<open>10^5 \<le> now\<close>),
  which every real \<open>Date.now()\<close> reading satisfies.

  \<^bold>\<open>Not modelled.\<close> \<open>console.error\<close> (logging only), the assignment to
  \<open>window\<close> (global export), and JavaScript numbers that are not integers: every number
  the code handles is an integer below \<open>2^53\<close>, where double arithmetic is exact, and
  \<open>jsval\<close> has no objects or arrays as field values. The browser functions
  \<open>btoa\<close>/\<open>atob\<close> and the ECMAScript operators are modelled from their standards.

  \<^bold>\<open>Plan.\<close> Extensions along the same lines: field values that are arrays or
  objects (their \<open>toString\<close>), non-integer numbers as field values, and the
  \<open>_encryptionVersion\<close> stamp as a version check on a migration step.
\<close>

section \<open>Properties across components\<close>

text \<open>
  C11 (keys drift between sessions). Data encrypted by one \<open>FinanceFlowCrypto\<close> object
  and decrypted by another, built at a clock reading with different last six digits,
  comes back wrong, and silently: every Latin-1 text of 30 code units or more (one key
  period) decrypts to something other than the original, and no error is raised.
\<close>

theorem session_keys_mismatch:
  assumes "10 ^ 5 \<le> now1" and "10 ^ 5 \<le> now2" and "now1 mod 10 ^ 6 \<noteq> now2 mod 10 ^ 6"
    and "latin1 t" and "30 \<le> length t"
  shows "decrypt (new_crypto now2) (JStr (encrypt (new_crypto now1) t)) \<noteq> JStr t"
proof -
  let ?k1 = "generate_encryption_key now1" and ?k2 = "generate_encryption_key now2"
  have ne: "?k1 \<noteq> ?k2" using generate_encryption_key_eq [OF assms(1,2)] assms(3) by simp
  have len: "length ?k1 = 30" "length ?k2 = 30"
    using assms(1,2) by (simp_all add: length_generate_encryption_key)
  have t: "t \<noteq> []" using assms(5) by auto
  have "decrypt (new_crypto now2) (JStr (encrypt (new_crypto now1) t)) = JStr (xor_ref ?k2 (xor_ref ?k1 t))"
    using assms(4) t by (simp add: new_crypto_def encrypt_latin1 decrypt_encoded latin1_xor_ref
        latin1_generate_encryption_key)
  moreover have "xor_ref ?k2 (xor_ref ?k1 t) \<noteq> t"
    using len ne assms(5) by (intro xor_ref_other_key) simp_all
  ultimately show ?thesis by simp
qed

theorem session_keys_mismatch_witness:
  "10 ^ 5 \<le> (1700000123456::nat) \<and> 10 ^ 5 \<le> (1700000123457::nat) \<and>
   (1700000123456::nat) mod 10 ^ 6 \<noteq> 1700000123457 mod 10 ^ 6 \<and>
   latin1 (js_lit ''Acme Private Limited, Mumbai 400001'') \<and>
   30 \<le> length (js_lit ''Acme Private Limited, Mumbai 400001'') \<and>
   decrypt (new_crypto 1700000123457)
     (JStr (encrypt (new_crypto 1700000123456) (js_lit ''Acme Private Limited, Mumbai 400001'')))
   \<noteq> JStr (js_lit ''Acme Private Limited, Mumbai 400001'')"
proof -
  have h: "10 ^ 5 \<le> (1700000123456::nat)" "10 ^ 5 \<le> (1700000123457::nat)"
    "(1700000123456::nat) mod 10 ^ 6 \<noteq> 1700000123457 mod 10 ^ 6"
    "latin1 (js_lit ''Acme Private Limited, Mumbai 400001'')"
    "30 \<le> length (js_lit ''Acme Private Limited, Mumbai 400001'')"
    by (simp_all add: js_lit_def)
  show ?thesis using h session_keys_mismatch [OF h] by simp
qed

end
